theory Spec2Isabelle
  imports Main "HOL-Library.AList"
begin

section \<open>Configuration resolution of gd2gs (src/gd2gs/config.py)\<close>

text \<open>
  The module reads a YAML document and resolves it into a \<open>Config\<close> object. The
  embedding starts at the parsed document (the value returned by \<open>yaml.safe_load\<close>);
  opening and parsing the file is outside of it.
\<close>

subsection \<open>Parsed YAML values\<close>

text \<open>
  The Python value of a parsed document: \<open>None\<close>, a \<open>bool\<close>, an \<open>int\<close>, a \<open>str\<close>, a
  \<open>list\<close> or a \<open>dict\<close>. A \<open>dict\<close> is an association list in insertion order; its keys
  are strings (the spec's RawNode maps string keys to values) and are pairwise distinct
  in every dictionary Python builds. Floats, timestamps and binary scalars are left out
  of the value universe.
\<close>

datatype yaml =
    YNull
  | YBool bool
  | YInt int
  | YStr string
  | YList "yaml list"
  | YDict "(string \<times> yaml) list"

subsection \<open>Constants of the module\<close>

definition BUGZILLA :: string where "BUGZILLA = ''BUGZILLA''"
definition API_KEY :: string where "API_KEY = ''API_KEY''"
definition DOMAIN :: string where "DOMAIN = ''DOMAIN''"
definition URL :: string where "URL = ''URL''"

definition JIRA :: string where "JIRA = ''JIRA''"
definition SERVER :: string where "SERVER = ''SERVER''"
definition TOKEN :: string where "TOKEN = ''TOKEN''"

definition MAX_RESULTS :: string where "MAX_RESULTS = ''MAX_RESULTS''"
definition DEFAULT_MAX_RESULTS :: yaml where "DEFAULT_MAX_RESULTS = YInt 100"
definition QUERY :: string where "QUERY = ''QUERY''"

definition SPREADSHEET_ID :: string where "SPREADSHEET_ID = ''SPREADSHEET_ID''"
definition SHEETS :: string where "SHEETS = ''SHEETS''"
definition NAME :: string where "NAME = ''NAME''"

definition HEADER_OFFSET :: string where "HEADER_OFFSET = ''HEADER_OFFSET''"
definition DEFAULT_HEADER_OFFSET :: int where "DEFAULT_HEADER_OFFSET = 0"
definition DEFAULT_COLUMNS :: string where "DEFAULT_COLUMNS = ''DEFAULT_COLUMNS''"
definition INIT_DEFAULT_COLUMNS :: yaml where "INIT_DEFAULT_COLUMNS = YBool False"
definition INHERIT_FORMULAS :: string where "INHERIT_FORMULAS = ''INHERIT_FORMULAS''"
definition INIT_INHERIT_FORMULAS :: yaml where "INIT_INHERIT_FORMULAS = YBool False"
definition SHEET_COLUMNS :: string where "SHEET_COLUMNS = ''SHEET_COLUMNS''"
definition SOURCE :: string where "SOURCE = ''SOURCE''"
definition FROM :: string where "FROM = ''FROM''"
definition GET :: string where "GET = ''GET''"
definition CONDITION :: string where "CONDITION = ''CONDITION''"
definition KEY :: string where "KEY = ''KEY''"
definition LINK :: string where "LINK = ''LINK''"
definition OPTIONAL :: string where "OPTIONAL = ''OPTIONAL''"
definition DELIMITER :: string where "DELIMITER = ''DELIMITER''"
definition DEFAULT_DELIMITER :: yaml where "DEFAULT_DELIMITER = YStr '' ''"

definition SHEET :: string where "SHEET = ''sheet''"

definition CONFIG_FILE_MISSING_INPUT :: string where
  "CONFIG_FILE_MISSING_INPUT = ''input is missing in the config file''"
definition CONFIG_FILE_UNKNOWN_INPUT :: string where
  "CONFIG_FILE_UNKNOWN_INPUT = ''input is unknown in the config file''"

definition CONFIG_FILE_MISSING_BUGZILLA_API_KEY_FILE :: string where
  "CONFIG_FILE_MISSING_BUGZILLA_API_KEY_FILE =
     ''Bugzilla API key file is not set in the config file''"
definition CONFIG_FILE_MISSING_BUGZILLA_DOMAIN :: string where
  "CONFIG_FILE_MISSING_BUGZILLA_DOMAIN = ''Bugzilla domain is not set in the config file''"
definition CONFIG_FILE_MISSING_BUGZILLA_URL :: string where
  "CONFIG_FILE_MISSING_BUGZILLA_URL = ''Bugzilla URL is not set in the config file''"

definition CONFIG_FILE_MISSING_JIRA_TOKEN :: string where
  "CONFIG_FILE_MISSING_JIRA_TOKEN = ''Jira access token is not set in the config file''"
definition CONFIG_FILE_MISSING_JIRA_URL :: string where
  "CONFIG_FILE_MISSING_JIRA_URL = ''Jira server url is not set in the config file''"

definition CONFIG_FILE_MISSING_KEY :: string where
  "CONFIG_FILE_MISSING_KEY = ''missing key in the config file''"
definition CONFIG_FILE_MISSING_QUERY :: string where
  "CONFIG_FILE_MISSING_QUERY = ''query is not set in the config file for the sheet ''"
definition CONFIG_FILE_MISSING_SHEET :: string where
  "CONFIG_FILE_MISSING_SHEET = ''no sheet is set in the config file''"
definition CONFIG_FILE_MISSING_SPREADSHEET :: string where
  "CONFIG_FILE_MISSING_SPREADSHEET = ''spreadsheet_id is not set in the config file''"
definition CONFIG_FILE_MORE_KEYS :: string where
  "CONFIG_FILE_MORE_KEYS = ''more than one key is set in the config file''"
definition CONFIG_FILE_WRONG_SPREADSHEET :: string where
  "CONFIG_FILE_WRONG_SPREADSHEET = ''spreadsheet_id must be a string in the config file''"

subsection \<open>Exceptions and process termination\<close>

text \<open>
  Every way in which a call does not return: the Python exceptions the module can raise
  and does not catch, and the two ways the logger ends the process.
\<close>

datatype error =
    KeyError
  | TypeError
  | ValueError
  | AttributeError
  | UnboundLocalError
  | Abort
  | Fatal string

subsection \<open>The diagnostics collector (gd2gs.logger)\<close>

text \<open>
  The state of the collector is the list of the non-fatal errors recorded so far, oldest
  first. A function that may record errors takes this list and returns the new one
  together with its result.
\<close>

type_synonym errlog = "string list"

text \<open>
  Modelled from the spec: \<open>gd2gs.logger\<close> is imported by the module and is not among the
  sources. Spec 4.1: recordError(message) appends a non-fatal error and continues.
\<close>

definition log_error :: "string \<Rightarrow> errlog \<Rightarrow> errlog" where
  "log_error message errs = errs @ [message]"

text \<open>
  Modelled from the spec: \<open>log.check_error\<close> of the missing \<open>gd2gs.logger\<close>. Spec 4.1:
  abortIfAnyError() terminates the process if one or more non-fatal errors were recorded.
\<close>

definition check_error :: "errlog \<Rightarrow> error + unit" where
  "check_error errs = (if errs \<noteq> [] then Inl Abort else Inr ())"

text \<open>
  Modelled from the spec: \<open>log.fatal_error\<close> of the missing \<open>gd2gs.logger\<close>. Spec 4.1:
  recordFatal(message) immediately terminates the whole resolution process.
  \<open>log.debug\<close> only writes a log line and has no counterpart here; the exceptions that
  building its argument can raise are kept in the callers.
\<close>

definition fatal_error :: "string \<Rightarrow> error + 'a" where
  "fatal_error message = Inl (Fatal message)"

subsection \<open>Python operations on parsed values\<close>

definition starts_with :: "string \<Rightarrow> string \<Rightarrow> bool" where
  "starts_with s p = (take (length p) s = p)"

fun is_substring :: "string \<Rightarrow> string \<Rightarrow> bool" where
  "is_substring p [] = (p = [])"
| "is_substring p (c # cs) = (starts_with (c # cs) p \<or> is_substring p cs)"

text \<open>
  \<open>param in container\<close> for a string \<open>param\<close>: key membership in a dict, element
  membership in a list, substring test in a str, \<open>TypeError\<close> otherwise.
\<close>

fun py_contains :: "string \<Rightarrow> yaml \<Rightarrow> error + bool" where
  "py_contains param (YDict d) = Inr (param \<in> set (map fst d))"
| "py_contains param (YList xs) = Inr (YStr param \<in> set xs)"
| "py_contains param (YStr s) = Inr (is_substring param s)"
| "py_contains param v = Inl TypeError"

text \<open>
  \<open>container[param]\<close> for a string \<open>param\<close>: only a dict can be indexed by a string; a
  missing key raises \<open>KeyError\<close>, every other container \<open>TypeError\<close>.
\<close>

fun py_getitem :: "yaml \<Rightarrow> string \<Rightarrow> error + yaml" where
  "py_getitem (YDict d) param =
     (case map_of d param of None \<Rightarrow> Inl KeyError | Some v \<Rightarrow> Inr v)"
| "py_getitem v param = Inl TypeError"

text \<open>\<open>container[None]\<close>: no dict of the model has the key \<open>None\<close>.\<close>

fun py_getitem_None :: "yaml \<Rightarrow> error + yaml" where
  "py_getitem_None (YDict d) = Inl KeyError"
| "py_getitem_None v = Inl TypeError"

text \<open>\<open>for x in container\<close>: the elements of a list, the keys of a dict, the characters
  of a str.\<close>

fun py_iter :: "yaml \<Rightarrow> error + yaml list" where
  "py_iter (YList xs) = Inr xs"
| "py_iter (YDict d) = Inr (map (\<lambda>kv. YStr (fst kv)) d)"
| "py_iter (YStr s) = Inr (map (\<lambda>c. YStr [c]) s)"
| "py_iter v = Inl TypeError"

text \<open>\<open>container.items()\<close>: only a dict has the method.\<close>

fun py_items :: "yaml \<Rightarrow> error + (string \<times> yaml) list" where
  "py_items (YDict d) = Inr d"
| "py_items v = Inl AttributeError"

text \<open>\<open>isinstance(value, str)\<close>\<close>

fun isinstance_str :: "yaml \<Rightarrow> bool" where
  "isinstance_str (YStr s) = True"
| "isinstance_str v = False"

text \<open>\<open>prefix + value\<close> for a string \<open>prefix\<close>.\<close>

fun py_str_add :: "string \<Rightarrow> yaml \<Rightarrow> error + string" where
  "py_str_add prefix (YStr s) = Inr (prefix @ s)"
| "py_str_add prefix v = Inl TypeError"

text \<open>
  \<open>int(value)\<close>. A string is stripped of surrounding whitespace and must then be an
  optional sign and decimal digits, where single underscores may separate digits
  (the interpreter's optional limit on the number of digits is not modelled).
\<close>

definition is_space :: "char \<Rightarrow> bool" where
  "is_space c = ((of_char c :: nat) \<in> {9, 10, 11, 12, 13, 32, 133, 160})"

definition is_digit :: "char \<Rightarrow> bool" where
  "is_digit c = (48 \<le> (of_char c :: nat) \<and> (of_char c :: nat) \<le> 57)"

definition digit_value :: "char \<Rightarrow> int" where
  "digit_value c = int (of_char c) - 48"

fun parse_digits :: "int \<Rightarrow> string \<Rightarrow> int option" where
  "parse_digits acc [] = Some acc"
| "parse_digits acc [c] =
     (if is_digit c then Some (acc * 10 + digit_value c) else None)"
| "parse_digits acc (c # d # ds) =
     (if is_digit c then parse_digits (acc * 10 + digit_value c) (d # ds)
      else if c = CHR ''_'' \<and> is_digit d then parse_digits (acc * 10 + digit_value d) ds
      else None)"

definition parse_unsigned :: "string \<Rightarrow> int option" where
  "parse_unsigned s =
     (case s of [] \<Rightarrow> None
      | c # cs \<Rightarrow> if is_digit c then parse_digits (digit_value c) cs else None)"

definition strip :: "string \<Rightarrow> string" where
  "strip s = rev (dropWhile is_space (rev (dropWhile is_space s)))"

definition int_of_str :: "string \<Rightarrow> int option" where
  "int_of_str s =
     (case strip s of
        [] \<Rightarrow> None
      | c # cs \<Rightarrow>
          if c = CHR ''-'' then map_option uminus (parse_unsigned cs)
          else if c = CHR ''+'' then parse_unsigned cs
          else parse_unsigned (c # cs))"

fun py_int :: "yaml \<Rightarrow> error + int" where
  "py_int (YInt n) = Inr n"
| "py_int (YBool b) = Inr (if b then 1 else 0)"
| "py_int (YStr s) = (case int_of_str s of None \<Rightarrow> Inl ValueError | Some n \<Rightarrow> Inr n)"
| "py_int v = Inl TypeError"

subsection \<open>The data classes\<close>

text \<open>
  \<open>Column\<close>: the six declared fields, all defaulting to \<open>None\<close> except the delimiter
  (\<open>col_delimiter\<close> is the field \<open>delimiter\<close> of \<open>Column\<close>; \<open>Sheet\<close> has one too).
  \<open>get_source_config\<close> also assigns an attribute \<open>delimiter2\<close> that the class does not
  declare; it is \<open>None\<close> here as long as the attribute does not exist.
\<close>

record Column =
  data :: yaml
  gets :: yaml
  condition :: yaml
  optional :: yaml
  link :: yaml
  col_delimiter :: yaml
  delimiter2 :: "yaml option"

definition Column_init :: Column where
  "Column_init = \<lparr> data = YNull, gets = YNull, condition = YNull, optional = YNull,
     link = YNull, col_delimiter = DEFAULT_DELIMITER, delimiter2 = None \<rparr>"

text \<open>\<open>Sheet\<close>: \<open>key\<close> is \<open>None\<close> or a column name; \<open>columns\<close> is a dict in insertion order.\<close>

record Sheet =
  header_offset :: int
  delimiter :: yaml
  default_columns :: yaml
  inherit_formulas :: yaml
  columns :: "(string \<times> Column) list"
  key :: "string option"

text \<open>The truth value of a key: \<open>None\<close> and the empty string are false.\<close>

definition truthy :: "string option \<Rightarrow> bool" where
  "truthy k = (case k of None \<Rightarrow> False | Some s \<Rightarrow> s \<noteq> [])"

subsection \<open>Primitive accessors\<close>

text \<open>
  \<open>get_config\<close>: a missing parameter records the error; the \<open>KeyError\<close> of the following
  read is caught and answered with \<open>log.check_error()\<close>. Should that call return, the
  debug line reads the unbound \<open>value_str\<close>.
\<close>

definition get_config :: "yaml \<Rightarrow> string \<Rightarrow> string \<Rightarrow> errlog \<Rightarrow> errlog \<times> (error + yaml)" where
  "get_config config_data param error_message errs =
     (case py_contains param config_data of
        Inl e \<Rightarrow> (errs, Inl e)
      | Inr present \<Rightarrow>
          let errs1 = (if \<not> present then log_error error_message errs else errs) in
          (case py_getitem config_data param of
             Inl KeyError \<Rightarrow>
               (case check_error errs1 of
                  Inl e \<Rightarrow> (errs1, Inl e)
                | Inr u \<Rightarrow> (errs1, Inl UnboundLocalError))
           | Inl e \<Rightarrow> (errs1, Inl e)
           | Inr v \<Rightarrow> (errs1, Inr v)))"

definition get_config_with_default :: "yaml \<Rightarrow> string \<Rightarrow> yaml \<Rightarrow> error + yaml" where
  "get_config_with_default config_data param default_value =
     (case py_contains param config_data of
        Inl e \<Rightarrow> Inl e
      | Inr present \<Rightarrow>
          if present then py_getitem config_data param else Inr default_value)"

text \<open>
  \<open>get_input\<close>: the result is \<open>BUGZILLA\<close>, \<open>JIRA\<close> or \<open>None\<close>. With neither key the error
  is recorded and \<open>config_data[None]\<close> raises the \<open>KeyError\<close> that leads to
  \<open>log.check_error()\<close>; should that return, \<open>None + ': '\<close> is a \<open>TypeError\<close>.
\<close>

definition get_input :: "yaml \<Rightarrow> string \<Rightarrow> errlog \<Rightarrow> errlog \<times> (error + string option)" where
  "get_input config_data error_message errs =
     (case py_contains BUGZILLA config_data of
        Inl e \<Rightarrow> (errs, Inl e)
      | Inr True \<Rightarrow>
          (case py_getitem config_data BUGZILLA of
             Inl KeyError \<Rightarrow>
               (case check_error errs of
                  Inl e \<Rightarrow> (errs, Inl e)
                | Inr u \<Rightarrow> (errs, Inl UnboundLocalError))
           | Inl e \<Rightarrow> (errs, Inl e)
           | Inr v \<Rightarrow> (errs, Inr (Some BUGZILLA)))
      | Inr False \<Rightarrow>
          (case py_contains JIRA config_data of
             Inl e \<Rightarrow> (errs, Inl e)
           | Inr True \<Rightarrow>
               (case py_getitem config_data JIRA of
                  Inl KeyError \<Rightarrow>
                    (case check_error errs of
                       Inl e \<Rightarrow> (errs, Inl e)
                     | Inr u \<Rightarrow> (errs, Inl UnboundLocalError))
                | Inl e \<Rightarrow> (errs, Inl e)
                | Inr v \<Rightarrow> (errs, Inr (Some JIRA)))
           | Inr False \<Rightarrow>
               let errs1 = log_error error_message errs in
               (case py_getitem_None config_data of
                  Inl KeyError \<Rightarrow>
                    (case check_error errs1 of
                       Inl e \<Rightarrow> (errs1, Inl e)
                     | Inr u \<Rightarrow> (errs1, Inl TypeError))
                | Inl e \<Rightarrow> (errs1, Inl e)
                | Inr v \<Rightarrow> (errs1, Inr None))))"

subsection \<open>Column resolver\<close>

text \<open>
  \<open>get_source_config\<close> reads \<open>c_data[SOURCE]\<close> without testing for the key. The nested
  delimiter goes to the attribute \<open>delimiter2\<close>, not to \<open>delimiter\<close>.
\<close>

definition get_source_config :: "Column \<Rightarrow> yaml \<Rightarrow> error + Column" where
  "get_source_config col c_data =
     (case py_getitem c_data SOURCE of
        Inl e \<Rightarrow> Inl e
      | Inr (YDict src) \<Rightarrow>
          let col1 = col\<lparr>delimiter2 :=
                Some (case map_of src DELIMITER of Some d \<Rightarrow> d | None \<Rightarrow> col_delimiter col)\<rparr>;
              col2 = (case map_of src FROM of Some v \<Rightarrow> col1\<lparr>data := v\<rparr> | None \<Rightarrow> col1);
              col3 = (case map_of src GET of Some v \<Rightarrow> col2\<lparr>gets := v\<rparr> | None \<Rightarrow> col2);
              col4 = (case map_of src CONDITION of Some v \<Rightarrow> col3\<lparr>condition := v\<rparr>
                      | None \<Rightarrow> col3);
              col5 = (case map_of src LINK of Some v \<Rightarrow> col4\<lparr>link := v\<rparr> | None \<Rightarrow> col4);
              col6 = (case map_of src OPTIONAL of Some v \<Rightarrow> col5\<lparr>optional := v\<rparr>
                      | None \<Rightarrow> col5)
          in Inr col6
      | Inr v \<Rightarrow> Inr (col\<lparr>data := v\<rparr>))"

text \<open>
  \<open>get_column_config\<close> returns the key and, here, the column object it has filled.
  In a mapping with the \<open>KEY\<close> field the column becomes the key whether or not a key was
  there already.
\<close>

definition get_column_config ::
  "string option \<Rightarrow> string \<Rightarrow> Column \<Rightarrow> yaml \<Rightarrow> yaml \<Rightarrow> errlog
     \<Rightarrow> errlog \<times> (error + string option \<times> Column)" where
  "get_column_config key0 column col c_data delimiter0 errs =
     (case c_data of
        YDict c \<Rightarrow>
          let errs1 = (if KEY \<in> set (map fst c) \<and> truthy key0
                       then log_error CONFIG_FILE_MORE_KEYS errs else errs);
              key1 = (if KEY \<in> set (map fst c) then Some column else key0);
              col1 = col\<lparr>col_delimiter :=
                       (case map_of c DELIMITER of Some d \<Rightarrow> d | None \<Rightarrow> delimiter0)\<rparr>;
              col2 = (case map_of c LINK of Some v \<Rightarrow> col1\<lparr>link := v\<rparr> | None \<Rightarrow> col1);
              col3 = (case map_of c OPTIONAL of Some v \<Rightarrow> col2\<lparr>optional := v\<rparr>
                      | None \<Rightarrow> col2)
          in (case get_source_config col3 c_data of
                Inl e \<Rightarrow> (errs1, Inl e)
              | Inr col4 \<Rightarrow> (errs1, Inr (key1, col4)))
      | v \<Rightarrow> (errs, Inr (key0, col\<lparr>data := c_data\<rparr>)))"

text \<open>
  The test of lines 187 and 188 under which \<open>get_column_config\<close> makes the column the
  key: its specification is a mapping with the \<open>KEY\<close> field (whatever the field's value).
  \<open>key_columns\<close> lists the names of the declared columns that pass it, in declaration
  order.
\<close>

definition marks_key :: "yaml \<Rightarrow> bool" where
  "marks_key c_data = (case c_data of YDict c \<Rightarrow> KEY \<in> set (map fst c) | v \<Rightarrow> False)"

definition key_columns :: "(string \<times> yaml) list \<Rightarrow> string list" where
  "key_columns items = map fst (filter (\<lambda>item. marks_key (snd item)) items)"

subsection \<open>Sequencing calls that may raise\<close>

text \<open>
  A call that raised or ended the process skips the rest of the caller; the recorded
  errors are kept. \<open>then_do\<close> continues with the value and the log of a call that
  returned, \<open>pure_do\<close> does the same for a call that never touches the log.
\<close>

definition then_do ::
  "errlog \<times> (error + 'a) \<Rightarrow> ('a \<Rightarrow> errlog \<Rightarrow> errlog \<times> (error + 'b)) \<Rightarrow> errlog \<times> (error + 'b)" where
  "then_do r f = (case r of (errs, Inl e) \<Rightarrow> (errs, Inl e) | (errs, Inr v) \<Rightarrow> f v errs)"

definition pure_do ::
  "error + 'a \<Rightarrow> errlog \<Rightarrow> ('a \<Rightarrow> errlog \<times> (error + 'b)) \<Rightarrow> errlog \<times> (error + 'b)" where
  "pure_do r errs f = (case r of Inl e \<Rightarrow> (errs, Inl e) | Inr v \<Rightarrow> f v)"

subsection \<open>Sheet resolver\<close>

text \<open>\<open>for column in spreadsheet.columns: columns[column] = spreadsheet.columns[column]\<close>\<close>

definition copy_columns :: "(string \<times> Column) list \<Rightarrow> (string \<times> Column) list" where
  "copy_columns src =
     fold (\<lambda>column cols.
             case map_of src column of Some c \<Rightarrow> AList.update column c cols | None \<Rightarrow> cols)
          (map fst src) []"

text \<open>
  The loop over \<open>config_data[SHEET_COLUMNS].items()\<close>: a fresh \<open>Column()\<close> is stored under
  the column's name (replacing a seeded column of that name, in its place, or appended)
  and filled by \<open>get_column_config\<close>, which also threads the key.
\<close>

fun columns_loop ::
  "(string \<times> yaml) list \<Rightarrow> yaml \<Rightarrow> (string \<times> Column) list \<Rightarrow> string option \<Rightarrow> errlog
     \<Rightarrow> errlog \<times> (error + (string \<times> Column) list \<times> string option)" where
  "columns_loop [] delimiter0 cols key0 errs = (errs, Inr (cols, key0))"
| "columns_loop ((column, c_data) # rest) delimiter0 cols key0 errs =
     then_do (get_column_config key0 column Column_init c_data delimiter0 errs)
       (\<lambda>(key1, col) errs1.
          columns_loop rest delimiter0 (AList.update column col cols) key1 errs1)"

text \<open>An optional setting: \<open>if FIELD in config_data: x = config_data[FIELD]\<close>.\<close>

definition override :: "yaml \<Rightarrow> string \<Rightarrow> yaml \<Rightarrow> error + yaml" where
  "override config_data field seeded =
     (case py_contains field config_data of
        Inl e \<Rightarrow> Inl e
      | Inr present \<Rightarrow> if present then py_getitem config_data field else Inr seeded)"

definition override_int :: "yaml \<Rightarrow> string \<Rightarrow> int \<Rightarrow> error + int" where
  "override_int config_data field seeded =
     (case py_contains field config_data of
        Inl e \<Rightarrow> Inl e
      | Inr present \<Rightarrow>
          if present
          then (case py_getitem config_data field of Inl e \<Rightarrow> Inl e | Inr v \<Rightarrow> py_int v)
          else Inr seeded)"

text \<open>
  Lines 175 to 178: \<open>if SHEET_COLUMNS in config_data\<close>, the loop over the declared
  columns runs on the seeded column map and key; otherwise both stay as seeded.
\<close>

definition declared_columns ::
  "yaml \<Rightarrow> yaml \<Rightarrow> (string \<times> Column) list \<Rightarrow> string option \<Rightarrow> errlog
     \<Rightarrow> errlog \<times> (error + (string \<times> Column) list \<times> string option)" where
  "declared_columns config_data delimiter1 columns0 key0 errs =
     pure_do (py_contains SHEET_COLUMNS config_data) errs (\<lambda>declared.
       if declared
       then pure_do (py_getitem config_data SHEET_COLUMNS) errs (\<lambda>v.
            pure_do (py_items v) errs (\<lambda>items.
              columns_loop items delimiter1 columns0 key0 errs))
       else (errs, Inr (columns0, key0)))"

text \<open>
  Lines 179 to 183: with a parent and an empty column map, the delimiter, the columns and
  the key are taken from the parent; then the \<open>Sheet\<close> is built.
\<close>

definition make_sheet ::
  "Sheet option \<Rightarrow> int \<Rightarrow> yaml \<Rightarrow> yaml \<Rightarrow> yaml \<Rightarrow> (string \<times> Column) list \<Rightarrow> string option
     \<Rightarrow> Sheet" where
  "make_sheet spreadsheet header_offset1 delimiter1 default_columns1 inherit_formulas1
     columns1 key1 =
     (case spreadsheet of
        Some sp \<Rightarrow>
          if columns1 = []
          then \<lparr> header_offset = header_offset1, delimiter = delimiter sp,
                 default_columns = default_columns1, inherit_formulas = inherit_formulas1,
                 columns = columns sp, key = key sp \<rparr>
          else \<lparr> header_offset = header_offset1, delimiter = delimiter1,
                 default_columns = default_columns1, inherit_formulas = inherit_formulas1,
                 columns = columns1, key = key1 \<rparr>
      | None \<Rightarrow>
          \<lparr> header_offset = header_offset1, delimiter = delimiter1,
            default_columns = default_columns1, inherit_formulas = inherit_formulas1,
            columns = columns1, key = key1 \<rparr>)"

definition get_sheet_config ::
  "yaml \<Rightarrow> Sheet option \<Rightarrow> errlog \<Rightarrow> errlog \<times> (error + Sheet)" where
  "get_sheet_config config_data spreadsheet errs =
     (let header_offset0 =
            (case spreadsheet of Some sp \<Rightarrow> header_offset sp | None \<Rightarrow> DEFAULT_HEADER_OFFSET);
          delimiter0 =
            (case spreadsheet of Some sp \<Rightarrow> delimiter sp | None \<Rightarrow> DEFAULT_DELIMITER);
          default_columns0 =
            (case spreadsheet of Some sp \<Rightarrow> default_columns sp | None \<Rightarrow> INIT_DEFAULT_COLUMNS);
          inherit_formulas0 =
            (case spreadsheet of Some sp \<Rightarrow> inherit_formulas sp
             | None \<Rightarrow> INIT_INHERIT_FORMULAS);
          key0 = (case spreadsheet of Some sp \<Rightarrow> key sp | None \<Rightarrow> None);
          columns0 = (case spreadsheet of Some sp \<Rightarrow> copy_columns (columns sp) | None \<Rightarrow> [])
      in
      pure_do (override_int config_data HEADER_OFFSET header_offset0) errs (\<lambda>header_offset1.
      pure_do (override config_data DELIMITER delimiter0) errs (\<lambda>delimiter1.
      pure_do (override config_data DEFAULT_COLUMNS default_columns0) errs (\<lambda>default_columns1.
      pure_do (override config_data INHERIT_FORMULAS inherit_formulas0) errs (\<lambda>inherit_formulas1.
      then_do (declared_columns config_data delimiter1 columns0 key0 errs)
        (\<lambda>(columns1, key1) errs1.
           (errs1, Inr (make_sheet spreadsheet header_offset1 delimiter1 default_columns1
                          inherit_formulas1 columns1 key1))))))))"

subsection \<open>Root resolver: the class Config\<close>

text \<open>
  The attributes of a \<open>Config\<close> object; each is \<open>None\<close> until the constructor assigns it
  (\<open>source\<close> is assigned first and may itself be Python's \<open>None\<close>).
\<close>

record Config =
  source :: "string option"
  bugzilla_domain :: "yaml option"
  bugzilla_url :: "yaml option"
  bugzilla_api_key :: "yaml option"
  jira_server :: "yaml option"
  jira_token :: "yaml option"
  jira_max_results :: "int option"
  spreadsheet_id :: "yaml option"
  sheets :: "yaml list option"
  sheet :: "(string \<times> Sheet) list option"
  queries :: "(string \<times> yaml) list option"

definition Config_new :: Config where
  "Config_new = \<lparr> source = None, bugzilla_domain = None, bugzilla_url = None,
     bugzilla_api_key = None, jira_server = None, jira_token = None,
     jira_max_results = None, spreadsheet_id = None, sheets = None, sheet = None,
     queries = None \<rparr>"

definition config_bugzilla :: "Config \<Rightarrow> yaml \<Rightarrow> errlog \<Rightarrow> errlog \<times> (error + Config)" where
  "config_bugzilla self config_data errs =
     pure_do (py_getitem config_data BUGZILLA) errs (\<lambda>b1.
     then_do (get_config b1 DOMAIN CONFIG_FILE_MISSING_BUGZILLA_DOMAIN errs) (\<lambda>dom errs1.
     pure_do (py_getitem config_data BUGZILLA) errs1 (\<lambda>b2.
     then_do (get_config b2 URL CONFIG_FILE_MISSING_BUGZILLA_URL errs1) (\<lambda>url errs2.
     pure_do (py_getitem config_data BUGZILLA) errs2 (\<lambda>b3.
     then_do (get_config b3 API_KEY CONFIG_FILE_MISSING_BUGZILLA_API_KEY_FILE errs2)
       (\<lambda>api errs3.
          (errs3, Inr (self\<lparr>bugzilla_domain := Some dom, bugzilla_url := Some url,
                            bugzilla_api_key := Some api\<rparr>))))))))"

definition config_jira :: "Config \<Rightarrow> yaml \<Rightarrow> errlog \<Rightarrow> errlog \<times> (error + Config)" where
  "config_jira self config_data errs =
     pure_do (py_getitem config_data JIRA) errs (\<lambda>j1.
     then_do (get_config j1 SERVER CONFIG_FILE_MISSING_JIRA_URL errs) (\<lambda>server errs1.
     pure_do (py_getitem config_data JIRA) errs1 (\<lambda>j2.
     then_do (get_config j2 TOKEN CONFIG_FILE_MISSING_JIRA_TOKEN errs1) (\<lambda>token errs2.
     pure_do (py_getitem config_data JIRA) errs2 (\<lambda>j3.
     pure_do (get_config_with_default j3 MAX_RESULTS DEFAULT_MAX_RESULTS) errs2 (\<lambda>m.
     pure_do (py_int m) errs2 (\<lambda>max_results.
       (errs2, Inr (self\<lparr>jira_server := Some server, jira_token := Some token,
                         jira_max_results := Some max_results\<rparr>)))))))))"

text \<open>
  The loop over \<open>config_data[SHEETS]\<close>, on the three attributes it fills. The name is read
  without a test for the field, appended to \<open>sheets\<close>, and then concatenated to the
  missing-query message, which raises \<open>TypeError\<close> unless it is a string.
\<close>

fun sheets_loop ::
  "yaml list \<Rightarrow> Sheet \<Rightarrow> yaml list \<times> (string \<times> Sheet) list \<times> (string \<times> yaml) list \<Rightarrow> errlog
     \<Rightarrow> errlog \<times> (error + yaml list \<times> (string \<times> Sheet) list \<times> (string \<times> yaml) list)" where
  "sheets_loop [] spreadsheet st errs = (errs, Inr st)"
| "sheets_loop (sheet_item # rest) spreadsheet (sheets0, sheet0, queries0) errs =
     pure_do (py_getitem sheet_item NAME) errs (\<lambda>name.
       let sheets1 = sheets0 @ [name] in
       pure_do (py_getitem sheet_item NAME) errs (\<lambda>name'.
       pure_do (py_str_add CONFIG_FILE_MISSING_QUERY name') errs (\<lambda>message.
       then_do (get_config sheet_item QUERY message errs) (\<lambda>query errs1.
         case name of
           YStr n \<Rightarrow>
             let queries1 = AList.update n query queries0 in
             then_do (get_sheet_config sheet_item (Some spreadsheet) errs1) (\<lambda>sh errs2.
               let sheet1 = AList.update n sh sheet0;
                   errs3 = (if \<not> truthy (key sh)
                            then log_error (CONFIG_FILE_MISSING_KEY @ '' ('' @ SHEET @ '': ''
                                              @ n @ '')'') errs2
                            else errs2)
               in sheets_loop rest spreadsheet (sheets1, sheet1, queries1) errs3)
         | v \<Rightarrow> (errs1, Inl TypeError)))))"

definition config_gsheet :: "Config \<Rightarrow> yaml \<Rightarrow> errlog \<Rightarrow> errlog \<times> (error + Config)" where
  "config_gsheet self config_data errs =
     then_do (get_config config_data SPREADSHEET_ID CONFIG_FILE_MISSING_SPREADSHEET errs)
       (\<lambda>sid errs1.
     pure_do (if \<not> isinstance_str sid then fatal_error CONFIG_FILE_WRONG_SPREADSHEET
              else Inr ())
       errs1 (\<lambda>u.
     let self1 = self\<lparr>spreadsheet_id := Some sid\<rparr> in
     then_do (get_sheet_config config_data None errs1) (\<lambda>spreadsheet errs2.
     pure_do (py_contains SHEETS config_data) errs2 (\<lambda>present.
       if present
       then pure_do (py_getitem config_data SHEETS) errs2 (\<lambda>v.
            pure_do (py_iter v) errs2 (\<lambda>items.
            then_do (sheets_loop items spreadsheet ([], [], []) errs2)
              (\<lambda>(sheets1, sheet1, queries1) errs3.
                 (errs3, Inr (self1\<lparr>sheets := Some sheets1, sheet := Some sheet1,
                                    queries := Some queries1\<rparr>)))))
       else (log_error CONFIG_FILE_MISSING_SHEET errs2, Inr self1)))))"

text \<open>
  \<open>Config.__init__\<close> from the parsed document on. In the last branch of the dispatch
  \<open>self.source + ' '\<close> is a \<open>TypeError\<close> when the source is \<open>None\<close>.
\<close>

definition Config_init :: "yaml \<Rightarrow> errlog \<Rightarrow> errlog \<times> (error + Config)" where
  "Config_init config_data errs =
     then_do (get_input config_data CONFIG_FILE_MISSING_INPUT errs) (\<lambda>src errs1.
       let self0 = Config_new\<lparr>source := src\<rparr> in
       then_do
         (if src = Some BUGZILLA then config_bugzilla self0 config_data errs1
          else if src = Some JIRA then config_jira self0 config_data errs1
          else (case src of
                  None \<Rightarrow> (errs1, Inl TypeError)
                | Some s \<Rightarrow>
                    (log_error (s @ '' '' @ CONFIG_FILE_UNKNOWN_INPUT) errs1, Inr self0)))
         (\<lambda>self1 errs2.
            then_do (config_gsheet self1 config_data errs2) (\<lambda>self2 errs3.
              pure_do (check_error errs3) errs3 (\<lambda>u. (errs3, Inr self2)))))"

subsection \<open>Example documents\<close>

text \<open>
  A Bugzilla document with the spreadsheet id 123 and, further down, a sheet without a
  query and without a key.
\<close>

definition numeric_id_doc :: yaml where
  "numeric_id_doc = YDict
     [(BUGZILLA, YDict [(DOMAIN, YStr ''d''), (URL, YStr ''u''), (API_KEY, YStr ''k'')]),
      (SPREADSHEET_ID, YInt 123),
      (SHEETS, YList [YDict [(NAME, YStr ''s1'')]])]"

text \<open>A Bugzilla document whose second sheet entry has no name.\<close>

definition nameless_sheet_doc :: yaml where
  "nameless_sheet_doc = YDict
     [(BUGZILLA, YDict [(DOMAIN, YStr ''d''), (URL, YStr ''u''), (API_KEY, YStr ''k'')]),
      (SPREADSHEET_ID, YStr ''id''),
      (SHEET_COLUMNS, YDict [(''Bug ID'', YDict [(KEY, YBool True), (SOURCE, YStr ''id'')])]),
      (SHEETS, YList [YDict [(NAME, YStr ''s1''), (QUERY, YStr ''q'')],
                      YDict [(QUERY, YStr ''r'')]])]"

text \<open>A complete document that declares both trackers.\<close>

definition both_trackers_doc :: yaml where
  "both_trackers_doc = YDict
     [(BUGZILLA, YDict [(DOMAIN, YStr ''d''), (URL, YStr ''u''), (API_KEY, YStr ''k'')]),
      (JIRA, YDict [(SERVER, YStr ''s''), (TOKEN, YStr ''t'')]),
      (SPREADSHEET_ID, YStr ''id''),
      (SHEET_COLUMNS, YDict [(''Bug ID'', YDict [(KEY, YBool True), (SOURCE, YStr ''id'')])]),
      (SHEETS, YList [YDict [(NAME, YStr ''s1''), (QUERY, YStr ''q'')]])]"

text \<open>
  A Bugzilla document whose first sheet entry has no query and whose second has no name,
  and a Jira document without columns whose second sheet entry has no name.
\<close>

definition query_then_name_missing_doc :: yaml where
  "query_then_name_missing_doc = YDict
     [(BUGZILLA, YDict [(DOMAIN, YStr ''d''), (URL, YStr ''u''), (API_KEY, YStr ''k'')]),
      (SPREADSHEET_ID, YStr ''id''),
      (SHEET_COLUMNS, YDict [(''Bug ID'', YDict [(KEY, YBool True), (SOURCE, YStr ''id'')])]),
      (SHEETS, YList [YDict [(NAME, YStr ''s1'')], YDict [(QUERY, YStr ''r'')]])]"

definition jira_nameless_sheet_doc :: yaml where
  "jira_nameless_sheet_doc = YDict
     [(JIRA, YDict [(SERVER, YStr ''s''), (TOKEN, YStr ''t'')]),
      (SPREADSHEET_ID, YStr ''id''),
      (SHEETS, YList [YDict [(NAME, YStr ''s1''), (QUERY, YStr ''q'')],
                      YDict [(QUERY, YStr ''r'')]])]"

text \<open>A Bugzilla document whose tracker section has none of the three fields.\<close>

definition empty_bugzilla_doc :: yaml where
  "empty_bugzilla_doc = YDict
     [(BUGZILLA, YDict []),
      (SPREADSHEET_ID, YStr ''id''),
      (SHEETS, YList [YDict [(NAME, YStr ''s1''), (QUERY, YStr ''q'')]])]"

text \<open>
  Spreadsheet defaults without columns (what a root document without SHEET_COLUMNS
  resolves to), and spreadsheet defaults with one key column and the delimiter \<open>";"\<close>.
\<close>

definition bare_defaults :: Sheet where
  "bare_defaults = \<lparr> header_offset = 0, delimiter = YStr '' '',
     default_columns = YBool False, inherit_formulas = YBool False, columns = [],
     key = None \<rparr>"

definition bug_id_column :: Column where
  "bug_id_column = \<lparr> data = YStr ''id'', gets = YNull, condition = YNull, optional = YNull,
     link = YNull, col_delimiter = YStr '';'', delimiter2 = None \<rparr>"

definition bug_id_defaults :: Sheet where
  "bug_id_defaults = \<lparr> header_offset = 1, delimiter = YStr '';'',
     default_columns = YBool False, inherit_formulas = YBool False,
     columns = [(''Bug ID'', bug_id_column)], key = Some ''Bug ID'' \<rparr>"

text \<open>Sheet entries: one that only sets the four settings, one that declares a column
  of its own, and one that declares three key columns.\<close>

definition settings_only_sheet :: yaml where
  "settings_only_sheet = YDict
     [(NAME, YStr ''s1''), (QUERY, YStr ''q''), (HEADER_OFFSET, YInt 2),
      (DELIMITER, YStr '',''), (DEFAULT_COLUMNS, YBool True), (INHERIT_FORMULAS, YBool True)]"

definition own_column_sheet :: yaml where
  "own_column_sheet = YDict
     [(NAME, YStr ''s1''), (QUERY, YStr ''q''),
      (SHEET_COLUMNS, YDict [(''Status'', YStr ''status'')])]"

definition three_keys_sheet :: yaml where
  "three_keys_sheet = YDict
     [(SHEET_COLUMNS, YDict
        [(''A'', YDict [(KEY, YBool True), (SOURCE, YStr ''a'')]),
         (''B'', YDict [(KEY, YBool True), (SOURCE, YStr ''b'')]),
         (''C'', YDict [(KEY, YBool True), (SOURCE, YStr ''c'')])])]"

section \<open>Properties\<close>

subsection \<open>Unfolding the constants\<close>

lemmas field_defs =
  BUGZILLA_def API_KEY_def DOMAIN_def URL_def JIRA_def SERVER_def TOKEN_def
  MAX_RESULTS_def QUERY_def SPREADSHEET_ID_def SHEETS_def NAME_def HEADER_OFFSET_def
  DEFAULT_COLUMNS_def INHERIT_FORMULAS_def SHEET_COLUMNS_def SOURCE_def FROM_def GET_def
  CONDITION_def KEY_def LINK_def OPTIONAL_def DELIMITER_def

lemmas default_defs =
  DEFAULT_MAX_RESULTS_def DEFAULT_HEADER_OFFSET_def INIT_DEFAULT_COLUMNS_def
  INIT_INHERIT_FORMULAS_def DEFAULT_DELIMITER_def

lemmas message_defs =
  SHEET_def CONFIG_FILE_MISSING_INPUT_def CONFIG_FILE_UNKNOWN_INPUT_def
  CONFIG_FILE_MISSING_BUGZILLA_API_KEY_FILE_def CONFIG_FILE_MISSING_BUGZILLA_DOMAIN_def
  CONFIG_FILE_MISSING_BUGZILLA_URL_def CONFIG_FILE_MISSING_JIRA_TOKEN_def
  CONFIG_FILE_MISSING_JIRA_URL_def CONFIG_FILE_MISSING_KEY_def CONFIG_FILE_MISSING_QUERY_def
  CONFIG_FILE_MISSING_SHEET_def CONFIG_FILE_MISSING_SPREADSHEET_def
  CONFIG_FILE_MORE_KEYS_def CONFIG_FILE_WRONG_SPREADSHEET_def

subsection \<open>Dictionaries and accessors\<close>

lemma map_of_absent: "k \<notin> set (map fst d) \<Longrightarrow> map_of d k = None"
  by (simp add: map_of_eq_None_iff)

lemma map_of_present: "map_of d k = Some v \<Longrightarrow> k \<in> set (map fst d)"
  by (metis map_of_absent option.distinct(1))

lemma present_map_of: "k \<in> set (map fst d) \<Longrightarrow> \<exists>v. map_of d k = Some v"
  by (metis map_of_eq_None_iff not_Some_eq set_map)

lemma get_config_present:
  "map_of d param = Some v \<Longrightarrow> get_config (YDict d) param message errs = (errs, Inr v)"
  using map_of_present [of d param v] by (simp add: get_config_def)

lemma get_config_absent:
  "param \<notin> set (map fst d) \<Longrightarrow>
   get_config (YDict d) param message errs = (errs @ [message], Inl Abort)"
  using map_of_absent [of param d]
  by (simp add: get_config_def log_error_def check_error_def)

lemma get_input_bugzilla:
  "map_of d BUGZILLA = Some v \<Longrightarrow>
   get_input (YDict d) message errs = (errs, Inr (Some BUGZILLA))"
  using map_of_present [of d BUGZILLA v] by (simp add: get_input_def)

lemma get_input_jira:
  "BUGZILLA \<notin> set (map fst d) \<Longrightarrow> map_of d JIRA = Some v \<Longrightarrow>
   get_input (YDict d) message errs = (errs, Inr (Some JIRA))"
  using map_of_present [of d JIRA v] by (simp add: get_input_def)

lemma get_input_neither:
  "BUGZILLA \<notin> set (map fst d) \<Longrightarrow> JIRA \<notin> set (map fst d) \<Longrightarrow>
   get_input (YDict d) message errs = (errs @ [message], Inl Abort)"
  by (simp add: get_input_def log_error_def check_error_def)

subsection \<open>Tracker parameters\<close>

lemma config_bugzilla_no_domain:
  assumes "map_of d BUGZILLA = Some (YDict b)" and "DOMAIN \<notin> set (map fst b)"
  shows "config_bugzilla self (YDict d) errs =
           (errs @ [CONFIG_FILE_MISSING_BUGZILLA_DOMAIN], Inl Abort)"
  using assms
  by (simp add: config_bugzilla_def pure_do_def then_do_def get_config_absent)

lemma config_bugzilla_no_url:
  assumes "map_of d BUGZILLA = Some (YDict b)" and "map_of b DOMAIN = Some vd"
    and "URL \<notin> set (map fst b)"
  shows "config_bugzilla self (YDict d) errs =
           (errs @ [CONFIG_FILE_MISSING_BUGZILLA_URL], Inl Abort)"
  using assms
  by (simp add: config_bugzilla_def pure_do_def then_do_def get_config_absent
      get_config_present)

lemma config_bugzilla_no_api_key:
  assumes "map_of d BUGZILLA = Some (YDict b)" and "map_of b DOMAIN = Some vd"
    and "map_of b URL = Some vu" and "API_KEY \<notin> set (map fst b)"
  shows "config_bugzilla self (YDict d) errs =
           (errs @ [CONFIG_FILE_MISSING_BUGZILLA_API_KEY_FILE], Inl Abort)"
  using assms
  by (simp add: config_bugzilla_def pure_do_def then_do_def get_config_absent
      get_config_present)

lemma config_bugzilla_missing:
  assumes "map_of d BUGZILLA = Some (YDict b)"
    and "\<not> {DOMAIN, URL, API_KEY} \<subseteq> set (map fst b)"
  shows "config_bugzilla self (YDict d) errs =
           (errs @ [if DOMAIN \<notin> set (map fst b) then CONFIG_FILE_MISSING_BUGZILLA_DOMAIN
                    else if URL \<notin> set (map fst b) then CONFIG_FILE_MISSING_BUGZILLA_URL
                    else CONFIG_FILE_MISSING_BUGZILLA_API_KEY_FILE], Inl Abort)"
proof (cases "DOMAIN \<in> set (map fst b)")
  case False
  with config_bugzilla_no_domain [OF assms(1)] show ?thesis
    by simp
next
  case dom: True
  from present_map_of [OF dom] obtain vd where vd: "map_of b DOMAIN = Some vd" ..
  show ?thesis
  proof (cases "URL \<in> set (map fst b)")
    case False
    with config_bugzilla_no_url [OF assms(1) vd] dom show ?thesis
      by simp
  next
    case url: True
    from present_map_of [OF url] obtain vu where vu: "map_of b URL = Some vu" ..
    from assms(2) dom url have "API_KEY \<notin> set (map fst b)" by simp
    with config_bugzilla_no_api_key [OF assms(1) vd vu] dom url show ?thesis
      by simp
  qed
qed

lemma config_bugzilla_complete:
  assumes "map_of d BUGZILLA = Some (YDict b)"
    and "map_of b DOMAIN = Some vd" and "map_of b URL = Some vu"
    and "map_of b API_KEY = Some vk"
  shows "config_bugzilla self (YDict d) errs =
           (errs, Inr (self\<lparr>bugzilla_domain := Some vd, bugzilla_url := Some vu,
                            bugzilla_api_key := Some vk\<rparr>))"
  using assms
  by (simp add: config_bugzilla_def pure_do_def then_do_def get_config_present)

text \<open>
  Claim C1, as amended. The claim says that a Bugzilla section missing several of DOMAIN,
  URL and API_KEY gets one recorded error per missing field and that resolution goes on to
  the final abort. In the code \<open>get_config\<close> answers the \<open>KeyError\<close> of a missing field
  with \<open>log.check_error()\<close> right after recording the error, so resolution of a document
  whose Bugzilla section is a mapping missing at least one of the three fields records
  exactly one error, that of the first missing field in the order DOMAIN, URL, API_KEY,
  and ends there.
\<close>

theorem bugzilla_first_missing_field_aborts:
  assumes "map_of d BUGZILLA = Some (YDict b)"
    and "\<not> {DOMAIN, URL, API_KEY} \<subseteq> set (map fst b)"
  shows "Config_init (YDict d) [] =
           ([if DOMAIN \<notin> set (map fst b) then CONFIG_FILE_MISSING_BUGZILLA_DOMAIN
             else if URL \<notin> set (map fst b) then CONFIG_FILE_MISSING_BUGZILLA_URL
             else CONFIG_FILE_MISSING_BUGZILLA_API_KEY_FILE], Inl Abort)"
  using config_bugzilla_missing [OF assms] get_input_bugzilla [OF assms(1)]
  by (simp add: Config_init_def then_do_def)

text \<open>The amended C1 at a document that has DOMAIN and lacks URL and API_KEY.\<close>

theorem bugzilla_first_missing_field_aborts_witness:
  "Config_init
     (YDict [(BUGZILLA, YDict [(DOMAIN, YStr ''d'')]), (SPREADSHEET_ID, YStr ''id'')]) []
   = ([CONFIG_FILE_MISSING_BUGZILLA_URL], Inl Abort)"
  using bugzilla_first_missing_field_aborts
    [of "[(BUGZILLA, YDict [(DOMAIN, YStr ''d'')]), (SPREADSHEET_ID, YStr ''id'')]"
        "[(DOMAIN, YStr ''d'')]"]
  by (simp add: field_defs)

text \<open>
  C1 as stated fails: with all three fields missing one error is recorded, not three,
  and the process ends at the first field.
\<close>

theorem bugzilla_missing_all_three_counterexample:
  "Config_init empty_bugzilla_doc [] = ([CONFIG_FILE_MISSING_BUGZILLA_DOMAIN], Inl Abort)
   \<and> length (fst (Config_init empty_bugzilla_doc [])) \<noteq> 3"
  by (simp add: empty_bugzilla_doc_def Config_init_def get_input_def config_bugzilla_def
      get_config_def then_do_def pure_do_def log_error_def check_error_def field_defs)

subsection \<open>Choice of the tracker\<close>

text \<open>
  Claim C6, as amended. The claim says that a document with both tracker keys, like one
  with neither, gets exactly one input error. \<open>get_input\<close> tests BUGZILLA first and JIRA
  only otherwise: a document (a mapping) with neither key records the one error
  \<open>CONFIG_FILE_MISSING_INPUT\<close> and resolution ends there; for a document with both keys
  \<open>get_input\<close> records nothing and selects BUGZILLA.
\<close>

theorem input_error_only_when_neither_tracker:
  "(BUGZILLA \<notin> set (map fst d) \<and> JIRA \<notin> set (map fst d) \<longrightarrow>
      Config_init (YDict d) errs = (errs @ [CONFIG_FILE_MISSING_INPUT], Inl Abort))
   \<and> (BUGZILLA \<in> set (map fst d) \<and> JIRA \<in> set (map fst d) \<longrightarrow>
      get_input (YDict d) CONFIG_FILE_MISSING_INPUT errs = (errs, Inr (Some BUGZILLA)))"
proof (intro conjI impI)
  assume "BUGZILLA \<notin> set (map fst d) \<and> JIRA \<notin> set (map fst d)"
  then show "Config_init (YDict d) errs = (errs @ [CONFIG_FILE_MISSING_INPUT], Inl Abort)"
    by (simp add: Config_init_def then_do_def get_input_neither)
next
  assume "BUGZILLA \<in> set (map fst d) \<and> JIRA \<in> set (map fst d)"
  then have "BUGZILLA \<in> set (map fst d)" ..
  from present_map_of [OF this] obtain v where "map_of d BUGZILLA = Some v" ..
  then show "get_input (YDict d) CONFIG_FILE_MISSING_INPUT errs = (errs, Inr (Some BUGZILLA))"
    by (rule get_input_bugzilla)
qed

text \<open>The amended C6 at a document with neither key and at one with both.\<close>

theorem input_error_only_when_neither_tracker_witness:
  "Config_init (YDict [(SPREADSHEET_ID, YStr ''id'')]) []
     = ([CONFIG_FILE_MISSING_INPUT], Inl Abort)
   \<and> get_input (YDict [(BUGZILLA, YDict []), (JIRA, YDict [])]) CONFIG_FILE_MISSING_INPUT []
     = ([], Inr (Some BUGZILLA))"
  using input_error_only_when_neither_tracker [of "[(SPREADSHEET_ID, YStr ''id'')]" "[]"]
    input_error_only_when_neither_tracker [of "[(BUGZILLA, YDict []), (JIRA, YDict [])]" "[]"]
  by (simp add: field_defs)

text \<open>
  C6 as stated fails: a complete document with both tracker keys resolves with no error
  recorded at all.
\<close>

theorem both_trackers_no_error_counterexample:
  "fst (Config_init both_trackers_doc []) = []
   \<and> \<not> isl (snd (Config_init both_trackers_doc []))"
  by (simp add: both_trackers_doc_def Config_init_def get_input_def config_bugzilla_def
      config_gsheet_def get_sheet_config_def declared_columns_def make_sheet_def
      get_column_config_def get_source_config_def
      get_config_def override_def override_int_def copy_columns_def truthy_def Config_new_def
      Column_init_def then_do_def pure_do_def log_error_def check_error_def field_defs
      default_defs Let_def)

subsection \<open>Column resolver\<close>

text \<open>
  Claim C4, as amended. The claim says that the delimiter of a nested source mapping
  becomes the delimiter of the resolved column. \<open>get_source_config\<close> assigns it to the
  separate attribute \<open>delimiter2\<close>: for a structured column whose SOURCE is a mapping with
  FROM and DELIMITER, the column resolves normally with \<open>data\<close> equal to the FROM value,
  \<open>delimiter2\<close> equal to the nested delimiter, and \<open>delimiter\<close> still the column-level one
  (the column's own DELIMITER if it has one, else the inherited delimiter).
\<close>

theorem nested_source_delimiter_goes_to_delimiter2:
  assumes "map_of c SOURCE = Some (YDict src)"
    and "map_of src FROM = Some f"
    and "map_of src DELIMITER = Some d2"
  shows "\<exists>errs1 key1 col1.
           get_column_config key0 column col (YDict c) delimiter0 errs
             = (errs1, Inr (key1, col1))
           \<and> data col1 = f
           \<and> delimiter2 col1 = Some d2
           \<and> col_delimiter col1 =
               (case map_of c DELIMITER of Some d \<Rightarrow> d | None \<Rightarrow> delimiter0)"
  using assms
  by (simp add: get_column_config_def get_source_config_def Let_def split: option.splits)

text \<open>The amended C4 at the column of the scenario.\<close>

theorem nested_source_delimiter_goes_to_delimiter2_witness:
  "\<exists>errs1 key1 col1.
     get_column_config None ''c'' Column_init
       (YDict [(SOURCE, YDict [(FROM, YStr ''x.y''), (DELIMITER, YStr '';'')])]) (YStr '','') []
       = (errs1, Inr (key1, col1))
     \<and> data col1 = YStr ''x.y'' \<and> delimiter2 col1 = Some (YStr '';'')
     \<and> col_delimiter col1 = YStr '',''"
  using nested_source_delimiter_goes_to_delimiter2
    [of "[(SOURCE, YDict [(FROM, YStr ''x.y''), (DELIMITER, YStr '';'')])]"
        "[(FROM, YStr ''x.y''), (DELIMITER, YStr '';'')]" "YStr ''x.y''" "YStr '';''"
        None "''c''" Column_init "YStr '',''" "[]"]
  by (simp add: field_defs)

text \<open>
  C4 as stated fails at its own scenario: the resolved column keeps the delimiter
  \<open>","\<close>; \<open>";"\<close> is in \<open>delimiter2\<close>.
\<close>

theorem nested_source_delimiter_counterexample:
  "get_column_config None ''c'' Column_init
     (YDict [(SOURCE, YDict [(FROM, YStr ''x.y''), (DELIMITER, YStr '';'')])]) (YStr '','') []
   = ([], Inr (None, \<lparr> data = YStr ''x.y'', gets = YNull, condition = YNull,
                        optional = YNull, link = YNull, col_delimiter = YStr '','',
                        delimiter2 = Some (YStr '';'') \<rparr>))"
  by (simp add: get_column_config_def get_source_config_def Column_init_def field_defs
      default_defs)

text \<open>
  Claim C9, as amended. The claim says that a structured column without a SOURCE block
  resolves normally with \<open>data\<close> unset. \<open>get_column_config\<close> calls \<open>get_source_config\<close>
  for every mapping, and that reads \<open>c_data[SOURCE]\<close> unguarded: resolving a mapping
  without SOURCE raises \<open>KeyError\<close>. Nothing is recorded for the missing source; the only
  error recorded on the way is the one for a second key, when it applies.
\<close>

theorem structured_column_without_source_raises:
  assumes "SOURCE \<notin> set (map fst c)"
  shows "get_column_config key0 column col (YDict c) delimiter0 errs =
           (if KEY \<in> set (map fst c) \<and> truthy key0
            then log_error CONFIG_FILE_MORE_KEYS errs else errs, Inl KeyError)"
  using map_of_absent [OF assms]
  by (simp add: get_column_config_def get_source_config_def Let_def)

text \<open>The amended C9 at a mapping that only marks the key, with a key already set.\<close>

theorem structured_column_without_source_raises_witness:
  "SOURCE \<notin> set (map fst [(KEY, YBool True)]) \<and>
   get_column_config (Some ''a'') ''b'' Column_init (YDict [(KEY, YBool True)]) (YStr '' '') []
     = ([CONFIG_FILE_MORE_KEYS], Inl KeyError)"
  using structured_column_without_source_raises
    [of "[(KEY, YBool True)]" "Some ''a''" "''b''" Column_init "YStr '' ''" "[]"]
  by (simp add: field_defs truthy_def log_error_def)

text \<open>C9 as stated fails: a mapping with a LINK and no SOURCE does not resolve.\<close>

theorem structured_column_without_source_counterexample:
  "get_column_config None ''c'' Column_init (YDict [(LINK, YStr ''l'')]) (YStr '' '') []
   = ([], Inl KeyError)"
  by (simp add: get_column_config_def get_source_config_def Column_init_def field_defs
      default_defs)

subsection \<open>Spreadsheet id\<close>

lemma config_jira_complete:
  assumes "map_of d JIRA = Some (YDict j)"
    and "map_of j SERVER = Some vs" and "map_of j TOKEN = Some vt"
    and "py_int (case map_of j MAX_RESULTS of Some m \<Rightarrow> m | None \<Rightarrow> DEFAULT_MAX_RESULTS) = Inr n"
  shows "config_jira self (YDict d) errs =
           (errs, Inr (self\<lparr>jira_server := Some vs, jira_token := Some vt,
                            jira_max_results := Some n\<rparr>))"
proof (cases "map_of j MAX_RESULTS")
  case None
  then have "MAX_RESULTS \<notin> set (map fst j)" by (simp add: map_of_eq_None_iff)
  with assms None show ?thesis
    by (simp add: config_jira_def pure_do_def then_do_def get_config_present
        get_config_with_default_def)
next
  case (Some m)
  from map_of_present [OF Some] assms Some show ?thesis
    by (simp add: config_jira_def pure_do_def then_do_def get_config_present
        get_config_with_default_def)
qed

lemma config_gsheet_wrong_id:
  assumes "map_of d SPREADSHEET_ID = Some v" and "\<not> isinstance_str v"
  shows "config_gsheet self (YDict d) errs = (errs, Inl (Fatal CONFIG_FILE_WRONG_SPREADSHEET))"
  using assms
  by (simp add: config_gsheet_def then_do_def pure_do_def get_config_present fatal_error_def)

text \<open>
  Claim C5, as amended. The claim says that a spreadsheet id that is not a string is a
  recorded, non-fatal error and that resolution goes on to the final abort.
  \<open>config_gsheet\<close> calls \<open>log.fatal_error\<close>: for every document (a mapping) whose
  SPREADSHEET_ID is present and not a string, the spreadsheet step ends the process at once
  with the fatal message \<open>CONFIG_FILE_WRONG_SPREADSHEET\<close> and records nothing; so does the
  whole resolution of such a document with complete Bugzilla or Jira parameters. The sheets
  are never walked.
\<close>

theorem non_string_spreadsheet_id_is_fatal:
  assumes "map_of d SPREADSHEET_ID = Some v" and "\<not> isinstance_str v"
  shows "config_gsheet self (YDict d) errs = (errs, Inl (Fatal CONFIG_FILE_WRONG_SPREADSHEET))
    \<and> (map_of d BUGZILLA = Some (YDict b) \<and> map_of b DOMAIN = Some vd
          \<and> map_of b URL = Some vu \<and> map_of b API_KEY = Some vk \<longrightarrow>
          Config_init (YDict d) [] = ([], Inl (Fatal CONFIG_FILE_WRONG_SPREADSHEET)))
    \<and> (BUGZILLA \<notin> set (map fst d) \<and> map_of d JIRA = Some (YDict j)
          \<and> map_of j SERVER = Some vs \<and> map_of j TOKEN = Some vt
          \<and> py_int (case map_of j MAX_RESULTS of Some m \<Rightarrow> m | None \<Rightarrow> DEFAULT_MAX_RESULTS)
              = Inr n \<longrightarrow>
          Config_init (YDict d) [] = ([], Inl (Fatal CONFIG_FILE_WRONG_SPREADSHEET)))"
proof (intro conjI impI)
  show "config_gsheet self (YDict d) errs = (errs, Inl (Fatal CONFIG_FILE_WRONG_SPREADSHEET))"
    by (rule config_gsheet_wrong_id [OF assms])
next
  assume h: "map_of d BUGZILLA = Some (YDict b) \<and> map_of b DOMAIN = Some vd
          \<and> map_of b URL = Some vu \<and> map_of b API_KEY = Some vk"
  then have "get_input (YDict d) CONFIG_FILE_MISSING_INPUT [] = ([], Inr (Some BUGZILLA))"
    by (simp add: get_input_bugzilla)
  moreover from h have "\<And>self. config_bugzilla self (YDict d) [] =
           ([], Inr (self\<lparr>bugzilla_domain := Some vd, bugzilla_url := Some vu,
                            bugzilla_api_key := Some vk\<rparr>))"
    by (simp add: config_bugzilla_complete)
  ultimately show "Config_init (YDict d) [] = ([], Inl (Fatal CONFIG_FILE_WRONG_SPREADSHEET))"
    by (simp add: Config_init_def then_do_def config_gsheet_wrong_id [OF assms])
next
  assume h: "BUGZILLA \<notin> set (map fst d) \<and> map_of d JIRA = Some (YDict j)
          \<and> map_of j SERVER = Some vs \<and> map_of j TOKEN = Some vt
          \<and> py_int (case map_of j MAX_RESULTS of Some m \<Rightarrow> m | None \<Rightarrow> DEFAULT_MAX_RESULTS)
              = Inr n"
  then have "get_input (YDict d) CONFIG_FILE_MISSING_INPUT [] = ([], Inr (Some JIRA))"
    by (simp add: get_input_jira)
  moreover from h have "\<And>self. config_jira self (YDict d) [] =
           ([], Inr (self\<lparr>jira_server := Some vs, jira_token := Some vt,
                            jira_max_results := Some n\<rparr>))"
    by (simp add: config_jira_complete)
  moreover have "JIRA \<noteq> BUGZILLA" by (simp add: field_defs)
  ultimately show "Config_init (YDict d) [] = ([], Inl (Fatal CONFIG_FILE_WRONG_SPREADSHEET))"
    by (simp add: Config_init_def then_do_def config_gsheet_wrong_id [OF assms])
qed

text \<open>
  C5 as stated fails: with the id 123 nothing is recorded and the process ends with the
  fatal error, although a sheet without query and key follows in the document.
\<close>

theorem non_string_spreadsheet_id_counterexample:
  "Config_init numeric_id_doc [] = ([], Inl (Fatal CONFIG_FILE_WRONG_SPREADSHEET))"
  by (simp add: numeric_id_doc_def Config_init_def get_input_def config_bugzilla_def
      config_gsheet_def get_config_def then_do_def pure_do_def fatal_error_def field_defs)


text \<open>The amended C5 at the ids \<open>True\<close>, \<open>[]\<close> and \<open>None\<close>.\<close>

theorem non_string_spreadsheet_id_is_fatal_witness:
  "config_gsheet Config_new (YDict [(SPREADSHEET_ID, YBool True)]) [''earlier error'']
     = ([''earlier error''], Inl (Fatal CONFIG_FILE_WRONG_SPREADSHEET))
   \<and> Config_init
         (YDict [(JIRA, YDict [(SERVER, YStr ''s''), (TOKEN, YStr ''t'')]),
                 (SPREADSHEET_ID, YList [])]) []
     = ([], Inl (Fatal CONFIG_FILE_WRONG_SPREADSHEET))
   \<and> Config_init
         (YDict [(BUGZILLA, YDict [(DOMAIN, YStr ''d''), (URL, YStr ''u''),
                                   (API_KEY, YStr ''k'')]),
                 (SPREADSHEET_ID, YNull)]) []
     = ([], Inl (Fatal CONFIG_FILE_WRONG_SPREADSHEET))"
  using non_string_spreadsheet_id_is_fatal
      [where d = "[(SPREADSHEET_ID, YBool True)]" and v = "YBool True" and self = Config_new
         and errs = "[''earlier error'']"]
    non_string_spreadsheet_id_is_fatal
      [where d = "[(JIRA, YDict [(SERVER, YStr ''s''), (TOKEN, YStr ''t'')]),
                   (SPREADSHEET_ID, YList [])]"
         and v = "YList []" and j = "[(SERVER, YStr ''s''), (TOKEN, YStr ''t'')]"
         and vs = "YStr ''s''" and vt = "YStr ''t''" and n = 100]
    non_string_spreadsheet_id_is_fatal
      [where d = "[(BUGZILLA, YDict [(DOMAIN, YStr ''d''), (URL, YStr ''u''),
                                     (API_KEY, YStr ''k'')]),
                   (SPREADSHEET_ID, YNull)]"
         and v = YNull and b = "[(DOMAIN, YStr ''d''), (URL, YStr ''u''), (API_KEY, YStr ''k'')]"
         and vd = "YStr ''d''" and vu = "YStr ''u''" and vk = "YStr ''k''"]
  by (simp add: field_defs default_defs)

subsection \<open>Sheet entries\<close>

lemma sheets_loop_no_name:
  assumes "NAME \<notin> set (map fst e)"
  shows "sheets_loop (YDict e # rest) spreadsheet st errs = (errs, Inl KeyError)"
proof -
  obtain a b c where st: "st = (a, b, c)" by (cases st)
  from map_of_absent [OF assms] show ?thesis
    unfolding st by (simp add: pure_do_def)
qed

lemma sheets_loop_append:
  "sheets_loop (pre @ post) spreadsheet st errs =
     then_do (sheets_loop pre spreadsheet st errs)
       (\<lambda>st1 errs1. sheets_loop post spreadsheet st1 errs1)"
proof (induction pre arbitrary: st errs)
  case Nil
  show ?case by (simp add: then_do_def)
next
  case (Cons x pre)
  obtain a b c where st: "st = (a, b, c)" by (cases st)
  show ?case
    unfolding st
    by (simp add: Cons.IH pure_do_def then_do_def Let_def
        split: sum.splits prod.splits yaml.splits)
qed

lemma config_gsheet_reaches_nameless_entry:
  assumes "NAME \<notin> set (map fst e)"
    and "map_of d SPREADSHEET_ID = Some sid" and "isinstance_str sid"
    and "get_sheet_config (YDict d) None errs2 = (errs3, Inr sp)"
    and "map_of d SHEETS = Some (YList (pre0 @ YDict e # rest))"
    and "sheets_loop pre0 sp ([], [], []) errs3 = (errs4, Inr st4)"
  shows "config_gsheet self (YDict d) errs2 = (errs4, Inl KeyError)"
proof -
  from assms(6)
  have loop: "sheets_loop (pre0 @ YDict e # rest) sp ([], [], []) errs3 = (errs4, Inl KeyError)"
    by (simp add: sheets_loop_append then_do_def sheets_loop_no_name [OF assms(1)])
  from map_of_present [OF assms(5)] have sh: "SHEETS \<in> set (map fst d)" .
  from assms(2-5) sh loop show ?thesis
    by (simp add: config_gsheet_def then_do_def pure_do_def get_config_present)
qed

text \<open>
  Claim C10, as amended. The claim says that every document with a sheet entry
  (a mapping) without the NAME field ends in an uncaught \<open>KeyError\<close>. That holds for the
  documents whose resolution reaches the entry: an abort, a fatal error or an exception in
  an earlier step ends resolution there instead. Whenever the entry is reached, reading
  \<open>sheet_item[NAME]\<close> raises \<open>KeyError\<close>; nothing is recorded for the entry (the log is
  the one the steps before it left, empty or not) and the final \<open>check_error\<close> is not
  run. This is shown for the entry alone; for the entry after any entries that returned;
  for \<open>config_gsheet\<close> on a document (a mapping) whose spreadsheet id is a string, whose
  spreadsheet defaults resolve and whose earlier entries return; and for the whole
  resolution of such a document, Bugzilla or Jira, whose tracker step returns.
\<close>

theorem reached_sheet_entry_without_name_raises_KeyError:
  assumes "NAME \<notin> set (map fst e)"
  shows "sheets_loop (YDict e # rest) spreadsheet st errs = (errs, Inl KeyError)
    \<and> (sheets_loop pre spreadsheet st errs = (errs1, Inr st1) \<longrightarrow>
          sheets_loop (pre @ YDict e # rest) spreadsheet st errs = (errs1, Inl KeyError))
    \<and> (map_of d SPREADSHEET_ID = Some sid \<and> isinstance_str sid
          \<and> get_sheet_config (YDict d) None errs2 = (errs3, Inr sp)
          \<and> map_of d SHEETS = Some (YList (pre0 @ YDict e # rest))
          \<and> sheets_loop pre0 sp ([], [], []) errs3 = (errs4, Inr st4) \<longrightarrow>
        config_gsheet self (YDict d) errs2 = (errs4, Inl KeyError)
        \<and> (map_of d BUGZILLA = Some vb
              \<and> config_bugzilla (Config_new\<lparr>source := Some BUGZILLA\<rparr>) (YDict d) errs0
                  = (errs2, Inr self1) \<longrightarrow>
            Config_init (YDict d) errs0 = (errs4, Inl KeyError))
        \<and> (BUGZILLA \<notin> set (map fst d) \<and> map_of d JIRA = Some vj
              \<and> config_jira (Config_new\<lparr>source := Some JIRA\<rparr>) (YDict d) errs0
                  = (errs2, Inr self1) \<longrightarrow>
            Config_init (YDict d) errs0 = (errs4, Inl KeyError)))"
proof (intro conjI impI)
  show "sheets_loop (YDict e # rest) spreadsheet st errs = (errs, Inl KeyError)"
    by (rule sheets_loop_no_name [OF assms])
next
  assume "sheets_loop pre spreadsheet st errs = (errs1, Inr st1)"
  then show "sheets_loop (pre @ YDict e # rest) spreadsheet st errs = (errs1, Inl KeyError)"
    by (simp add: sheets_loop_append then_do_def sheets_loop_no_name [OF assms])
next
  assume r: "map_of d SPREADSHEET_ID = Some sid \<and> isinstance_str sid
          \<and> get_sheet_config (YDict d) None errs2 = (errs3, Inr sp)
          \<and> map_of d SHEETS = Some (YList (pre0 @ YDict e # rest))
          \<and> sheets_loop pre0 sp ([], [], []) errs3 = (errs4, Inr st4)"
  then have "map_of d SPREADSHEET_ID = Some sid" and "isinstance_str sid"
    and "get_sheet_config (YDict d) None errs2 = (errs3, Inr sp)"
    and "map_of d SHEETS = Some (YList (pre0 @ YDict e # rest))"
    and "sheets_loop pre0 sp ([], [], []) errs3 = (errs4, Inr st4)"
    by simp_all
  then show "config_gsheet self (YDict d) errs2 = (errs4, Inl KeyError)"
    by (rule config_gsheet_reaches_nameless_entry [OF assms])
next
  assume r: "map_of d SPREADSHEET_ID = Some sid \<and> isinstance_str sid
          \<and> get_sheet_config (YDict d) None errs2 = (errs3, Inr sp)
          \<and> map_of d SHEETS = Some (YList (pre0 @ YDict e # rest))
          \<and> sheets_loop pre0 sp ([], [], []) errs3 = (errs4, Inr st4)"
    and t: "map_of d BUGZILLA = Some vb
              \<and> config_bugzilla (Config_new\<lparr>source := Some BUGZILLA\<rparr>) (YDict d) errs0
                  = (errs2, Inr self1)"
  from r have "map_of d SPREADSHEET_ID = Some sid" and "isinstance_str sid"
    and "get_sheet_config (YDict d) None errs2 = (errs3, Inr sp)"
    and "map_of d SHEETS = Some (YList (pre0 @ YDict e # rest))"
    and "sheets_loop pre0 sp ([], [], []) errs3 = (errs4, Inr st4)"
    by simp_all
  then have gs: "config_gsheet self1 (YDict d) errs2 = (errs4, Inl KeyError)"
    by (rule config_gsheet_reaches_nameless_entry [OF assms])
  from t have inp: "get_input (YDict d) CONFIG_FILE_MISSING_INPUT errs0
                      = (errs0, Inr (Some BUGZILLA))"
    by (simp add: get_input_bugzilla)
  from t have bz: "config_bugzilla (Config_new\<lparr>source := Some BUGZILLA\<rparr>) (YDict d) errs0
                  = (errs2, Inr self1)" by simp
  show "Config_init (YDict d) errs0 = (errs4, Inl KeyError)"
    by (simp add: Config_init_def then_do_def inp bz gs)
next
  assume r: "map_of d SPREADSHEET_ID = Some sid \<and> isinstance_str sid
          \<and> get_sheet_config (YDict d) None errs2 = (errs3, Inr sp)
          \<and> map_of d SHEETS = Some (YList (pre0 @ YDict e # rest))
          \<and> sheets_loop pre0 sp ([], [], []) errs3 = (errs4, Inr st4)"
    and t: "BUGZILLA \<notin> set (map fst d) \<and> map_of d JIRA = Some vj
              \<and> config_jira (Config_new\<lparr>source := Some JIRA\<rparr>) (YDict d) errs0
                  = (errs2, Inr self1)"
  from r have "map_of d SPREADSHEET_ID = Some sid" and "isinstance_str sid"
    and "get_sheet_config (YDict d) None errs2 = (errs3, Inr sp)"
    and "map_of d SHEETS = Some (YList (pre0 @ YDict e # rest))"
    and "sheets_loop pre0 sp ([], [], []) errs3 = (errs4, Inr st4)"
    by simp_all
  then have gs: "config_gsheet self1 (YDict d) errs2 = (errs4, Inl KeyError)"
    by (rule config_gsheet_reaches_nameless_entry [OF assms])
  from t have inp: "get_input (YDict d) CONFIG_FILE_MISSING_INPUT errs0
                      = (errs0, Inr (Some JIRA))"
    by (simp add: get_input_jira)
  from t have jr: "config_jira (Config_new\<lparr>source := Some JIRA\<rparr>) (YDict d) errs0
                  = (errs2, Inr self1)" by simp
  have ne: "JIRA \<noteq> BUGZILLA" by (simp add: field_defs)
  show "Config_init (YDict d) errs0 = (errs4, Inl KeyError)"
    by (simp add: Config_init_def then_do_def inp jr gs ne)
qed

text \<open>
  C10 as stated fails: the second entry has no name, but the first has no query, and
  resolution ends in \<open>get_config\<close> with that error recorded and no \<open>KeyError\<close>.
\<close>

theorem unreached_sheet_entry_without_name_counterexample:
  "Config_init query_then_name_missing_doc []
     = ([CONFIG_FILE_MISSING_QUERY @ ''s1''], Inl Abort)"
  by (simp add: query_then_name_missing_doc_def Config_init_def get_input_def
      config_bugzilla_def config_gsheet_def get_sheet_config_def declared_columns_def
      make_sheet_def get_column_config_def get_source_config_def get_config_def
      override_def override_int_def truthy_def Config_new_def Column_init_def then_do_def
      pure_do_def log_error_def check_error_def field_defs default_defs Let_def)


text \<open>
  The amended C10 at a Bugzilla document that reaches the entry with an empty log, and at
  a Jira document that reaches it with the missing-key error of the sheet before it.
\<close>

theorem reached_sheet_entry_without_name_raises_KeyError_witness:
  "Config_init nameless_sheet_doc [] = ([], Inl KeyError)
   \<and> Config_init jira_nameless_sheet_doc []
       = ([CONFIG_FILE_MISSING_KEY @ '' ('' @ SHEET @ '': s1)''], Inl KeyError)"
proof -
  let ?s1 = "YDict [(NAME, YStr ''s1''), (QUERY, YStr ''q'')]"
  let ?e = "[(QUERY, YStr ''r'')]"
  have noname: "NAME \<notin> set (map fst ?e)" by (simp add: field_defs)
  have bugzilla: "Config_init nameless_sheet_doc [] = ([], Inl KeyError)"
  proof -
    let ?col = "\<lparr> data = YStr ''id'', gets = YNull, condition = YNull, optional = YNull,
                   link = YNull, col_delimiter = YStr '' '', delimiter2 = None \<rparr>"
    let ?sp = "\<lparr> header_offset = 0, delimiter = YStr '' '', default_columns = YBool False,
                  inherit_formulas = YBool False, columns = [(''Bug ID'', ?col)],
                  key = Some ''Bug ID'' \<rparr>"
    let ?b = "[(DOMAIN, YStr ''d''), (URL, YStr ''u''), (API_KEY, YStr ''k'')]"
    let ?d = "[(BUGZILLA, YDict ?b), (SPREADSHEET_ID, YStr ''id''),
               (SHEET_COLUMNS,
                YDict [(''Bug ID'', YDict [(KEY, YBool True), (SOURCE, YStr ''id'')])]),
               (SHEETS, YList [?s1, YDict ?e])]"
    let ?self1 = "Config_new\<lparr>source := Some BUGZILLA, bugzilla_domain := Some (YStr ''d''),
                    bugzilla_url := Some (YStr ''u''), bugzilla_api_key := Some (YStr ''k'')\<rparr>"
    have tracker: "config_bugzilla (Config_new\<lparr>source := Some BUGZILLA\<rparr>) (YDict ?d) []
                     = ([], Inr ?self1)"
      by (simp add: config_bugzilla_complete [where b = "?b"] field_defs)
    have root: "get_sheet_config (YDict ?d) None [] = ([], Inr ?sp)"
      by (simp add: get_sheet_config_def declared_columns_def make_sheet_def
          get_column_config_def get_source_config_def override_def override_int_def
          truthy_def Column_init_def then_do_def pure_do_def field_defs default_defs Let_def)
    have first: "sheets_loop [?s1] ?sp ([], [], []) [] =
                   ([], Inr ([YStr ''s1''], [(''s1'', ?sp)], [(''s1'', YStr ''q'')]))"
      by (simp add: get_sheet_config_def declared_columns_def make_sheet_def get_config_def
          override_def override_int_def copy_columns_def truthy_def then_do_def pure_do_def
          field_defs default_defs Let_def)
    have "Config_init (YDict ?d) [] = ([], Inl KeyError)"
      using reached_sheet_entry_without_name_raises_KeyError
        [where e = "?e" and rest = "[]" and d = "?d" and sid = "YStr ''id''" and sp = "?sp"
           and ?pre0.0 = "[?s1]" and ?errs0.0 = "[]" and ?errs2.0 = "[]" and ?errs3.0 = "[]"
           and ?errs4.0 = "[]"
           and ?st4.0 = "([YStr ''s1''], [(''s1'', ?sp)], [(''s1'', YStr ''q'')])"
           and vb = "YDict ?b" and ?self1.0 = "?self1",
         OF noname] tracker root first
      by (simp add: field_defs)
    then show ?thesis by (simp add: nameless_sheet_doc_def)
  qed
  have jira: "Config_init jira_nameless_sheet_doc []
       = ([CONFIG_FILE_MISSING_KEY @ '' ('' @ SHEET @ '': s1)''], Inl KeyError)"
  proof -
    let ?sp = "\<lparr> header_offset = 0, delimiter = YStr '' '', default_columns = YBool False,
                  inherit_formulas = YBool False, columns = [], key = None \<rparr>"
    let ?j = "[(SERVER, YStr ''s''), (TOKEN, YStr ''t'')]"
    let ?d = "[(JIRA, YDict ?j), (SPREADSHEET_ID, YStr ''id''),
               (SHEETS, YList [?s1, YDict ?e])]"
    let ?self1 = "Config_new\<lparr>source := Some JIRA, jira_server := Some (YStr ''s''),
                    jira_token := Some (YStr ''t''), jira_max_results := Some 100\<rparr>"
    let ?msg = "CONFIG_FILE_MISSING_KEY @ '' ('' @ SHEET @ '': s1)''"
    have tracker: "config_jira (Config_new\<lparr>source := Some JIRA\<rparr>) (YDict ?d) []
                     = ([], Inr ?self1)"
      by (simp add: config_jira_complete [where j = "?j" and n = 100] field_defs default_defs)
    have root: "get_sheet_config (YDict ?d) None [] = ([], Inr ?sp)"
      by (simp add: get_sheet_config_def declared_columns_def make_sheet_def
          override_def override_int_def then_do_def pure_do_def field_defs default_defs
          Let_def)
    have first: "sheets_loop [?s1] ?sp ([], [], []) [] =
                   ([?msg], Inr ([YStr ''s1''], [(''s1'', ?sp)], [(''s1'', YStr ''q'')]))"
      by (simp add: get_sheet_config_def declared_columns_def make_sheet_def get_config_def
          override_def override_int_def copy_columns_def truthy_def log_error_def
          then_do_def pure_do_def field_defs default_defs Let_def)
    have "Config_init (YDict ?d) [] = ([?msg], Inl KeyError)"
      using reached_sheet_entry_without_name_raises_KeyError
        [where e = "?e" and rest = "[]" and d = "?d" and sid = "YStr ''id''" and sp = "?sp"
           and ?pre0.0 = "[?s1]" and ?errs0.0 = "[]" and ?errs2.0 = "[]" and ?errs3.0 = "[]"
           and ?errs4.0 = "[?msg]"
           and ?st4.0 = "([YStr ''s1''], [(''s1'', ?sp)], [(''s1'', YStr ''q'')])"
           and vj = "YDict ?j" and ?self1.0 = "?self1",
         OF noname] tracker root first
      by (simp add: field_defs)
    then show ?thesis by (simp add: jira_nameless_sheet_doc_def)
  qed
  from bugzilla jira show ?thesis ..
qed

subsection \<open>Sheet resolver\<close>

lemma update_fresh: "k \<notin> set (map fst al) \<Longrightarrow> AList.update k v al = al @ [(k, v)]"
  by (induction al) auto

lemma copy_fold:
  assumes "distinct (map fst (pre @ post))"
    and "\<And>k v. (k, v) \<in> set post \<Longrightarrow> m k = Some v"
  shows "fold (\<lambda>column cols. case m column of Some c \<Rightarrow> AList.update column c cols
                              | None \<Rightarrow> cols) (map fst post) pre = pre @ post"
  using assms
proof (induction post arbitrary: pre)
  case Nil
  show ?case by simp
next
  case (Cons kv post)
  obtain k v where kv: "kv = (k, v)" by (cases kv)
  from Cons.prems(2) kv have mk: "m k = Some v" by simp
  from Cons.prems(1) kv have fresh: "k \<notin> set (map fst pre)" by auto
  from Cons.prems(1) kv have d: "distinct (map fst ((pre @ [(k, v)]) @ post))" by auto
  have "fold (\<lambda>column cols. case m column of Some c \<Rightarrow> AList.update column c cols
                              | None \<Rightarrow> cols) (map fst post) (pre @ [(k, v)])
          = (pre @ [(k, v)]) @ post"
    by (rule Cons.IH [OF d]) (simp add: Cons.prems(2))
  then show ?case
    by (simp add: kv mk update_fresh [OF fresh])
qed

lemma copy_columns_distinct:
  assumes "distinct (map fst src)"
  shows "copy_columns src = src"
proof -
  have "fold (\<lambda>column cols. case map_of src column of Some c \<Rightarrow> AList.update column c cols
                              | None \<Rightarrow> cols) (map fst src) [] = [] @ src"
    by (rule copy_fold) (use assms in auto)
  then show ?thesis by (simp add: copy_columns_def)
qed

lemma override_dict:
  "override (YDict d) field seeded =
     Inr (case map_of d field of Some v \<Rightarrow> v | None \<Rightarrow> seeded)"
proof (cases "map_of d field")
  case None
  then have "field \<notin> set (map fst d)" by (simp add: map_of_eq_None_iff)
  with None show ?thesis by (simp add: override_def)
next
  case (Some v)
  from map_of_present [OF Some] Some show ?thesis by (simp add: override_def)
qed

lemma override_int_dict:
  "override_int (YDict d) field seeded =
     (case map_of d field of Some v \<Rightarrow> py_int v | None \<Rightarrow> Inr seeded)"
proof (cases "map_of d field")
  case None
  then have "field \<notin> set (map fst d)" by (simp add: map_of_eq_None_iff)
  with None show ?thesis by (simp add: override_int_def)
next
  case (Some v)
  from map_of_present [OF Some] Some show ?thesis by (simp add: override_int_def)
qed

lemma copy_fold_nonempty:
  "acc \<noteq> [] \<Longrightarrow>
   fold (\<lambda>column cols. case m column of Some c \<Rightarrow> AList.update column c cols
                          | None \<Rightarrow> cols) ks acc \<noteq> []"
  by (induction ks arbitrary: acc) (auto split: option.splits)

lemma copy_columns_Nil: "copy_columns src = [] \<Longrightarrow> src = []"
proof (cases src)
  case Nil
  then show ?thesis by simp
next
  case (Cons kv rest)
  obtain k v where kv: "kv = (k, v)" by (cases kv)
  assume "copy_columns src = []"
  moreover have "copy_columns src \<noteq> []"
    unfolding copy_columns_def Cons kv
    by (simp add: copy_fold_nonempty)
  ultimately show ?thesis by simp
qed

lemma columns_loop_Nil:
  "columns_loop items delimiter0 cols key0 errs = (errs1, Inr ([], key1)) \<Longrightarrow>
   cols = [] \<and> items = []"
proof (induction items arbitrary: cols key0 errs)
  case Nil
  then show ?case by simp
next
  case (Cons item items)
  obtain column c_data where item: "item = (column, c_data)" by (cases item)
  from Cons.prems obtain errs2 key2 col where
    "columns_loop items delimiter0 (AList.update column col cols) key2 errs2
       = (errs1, Inr ([], key1))"
    unfolding item
    by (auto simp: then_do_def split: prod.splits sum.splits)
  from Cons.IH [OF this] show ?case by simp
qed


lemma declared_columns_absent:
  "SHEET_COLUMNS \<notin> set (map fst d) \<Longrightarrow>
   declared_columns (YDict d) delimiter1 columns0 key0 errs = (errs, Inr (columns0, key0))"
  by (simp add: declared_columns_def pure_do_def)

lemma declared_columns_dict:
  "map_of d SHEET_COLUMNS = Some (YDict items) \<Longrightarrow>
   declared_columns (YDict d) delimiter1 columns0 key0 errs
     = columns_loop items delimiter1 columns0 key0 errs"
  using map_of_present [of d SHEET_COLUMNS "YDict items"]
  by (simp add: declared_columns_def pure_do_def)

lemma declared_columns_returns:
  assumes "declared_columns (YDict d) delimiter1 columns0 key0 errs = (errs1, Inr r)"
    and "map_of d SHEET_COLUMNS = Some v"
  shows "\<exists>items. v = YDict items"
  using assms map_of_present [OF assms(2)]
  by (cases v) (simp_all add: declared_columns_def pure_do_def)

lemma get_sheet_config_dict:
  "get_sheet_config (YDict d) spreadsheet errs =
     (case override_int (YDict d) HEADER_OFFSET
             (case spreadsheet of Some sp \<Rightarrow> header_offset sp | None \<Rightarrow> DEFAULT_HEADER_OFFSET) of
        Inl e \<Rightarrow> (errs, Inl e)
      | Inr h \<Rightarrow>
          then_do
            (declared_columns (YDict d)
               (case map_of d DELIMITER of
                  Some v \<Rightarrow> v
                | None \<Rightarrow> (case spreadsheet of Some sp \<Rightarrow> delimiter sp
                             | None \<Rightarrow> DEFAULT_DELIMITER))
               (case spreadsheet of Some sp \<Rightarrow> copy_columns (columns sp) | None \<Rightarrow> [])
               (case spreadsheet of Some sp \<Rightarrow> key sp | None \<Rightarrow> None) errs)
            (\<lambda>(columns1, key1) errs1.
               (errs1, Inr (make_sheet spreadsheet h
                  (case map_of d DELIMITER of
                     Some v \<Rightarrow> v
                   | None \<Rightarrow> (case spreadsheet of Some sp \<Rightarrow> delimiter sp
                                | None \<Rightarrow> DEFAULT_DELIMITER))
                  (case map_of d DEFAULT_COLUMNS of
                     Some v \<Rightarrow> v
                   | None \<Rightarrow> (case spreadsheet of Some sp \<Rightarrow> default_columns sp
                                | None \<Rightarrow> INIT_DEFAULT_COLUMNS))
                  (case map_of d INHERIT_FORMULAS of
                     Some v \<Rightarrow> v
                   | None \<Rightarrow> (case spreadsheet of Some sp \<Rightarrow> inherit_formulas sp
                                | None \<Rightarrow> INIT_INHERIT_FORMULAS))
                  columns1 key1))))"
  by (simp add: get_sheet_config_def pure_do_def override_dict Let_def split: sum.splits)


lemma get_sheet_config_returns:
  assumes "get_sheet_config (YDict d) spreadsheet errs = (errs1, Inr s)"
  shows "\<exists>h columns1 key1.
           override_int (YDict d) HEADER_OFFSET
             (case spreadsheet of Some sp \<Rightarrow> header_offset sp | None \<Rightarrow> DEFAULT_HEADER_OFFSET)
             = Inr h
         \<and> declared_columns (YDict d)
               (case map_of d DELIMITER of
                  Some v \<Rightarrow> v
                | None \<Rightarrow> (case spreadsheet of Some sp \<Rightarrow> delimiter sp
                             | None \<Rightarrow> DEFAULT_DELIMITER))
               (case spreadsheet of Some sp \<Rightarrow> copy_columns (columns sp) | None \<Rightarrow> [])
               (case spreadsheet of Some sp \<Rightarrow> key sp | None \<Rightarrow> None) errs
             = (errs1, Inr (columns1, key1))
         \<and> s = make_sheet spreadsheet h
                  (case map_of d DELIMITER of
                     Some v \<Rightarrow> v
                   | None \<Rightarrow> (case spreadsheet of Some sp \<Rightarrow> delimiter sp
                                | None \<Rightarrow> DEFAULT_DELIMITER))
                  (case map_of d DEFAULT_COLUMNS of
                     Some v \<Rightarrow> v
                   | None \<Rightarrow> (case spreadsheet of Some sp \<Rightarrow> default_columns sp
                                | None \<Rightarrow> INIT_DEFAULT_COLUMNS))
                  (case map_of d INHERIT_FORMULAS of
                     Some v \<Rightarrow> v
                   | None \<Rightarrow> (case spreadsheet of Some sp \<Rightarrow> inherit_formulas sp
                                | None \<Rightarrow> INIT_INHERIT_FORMULAS))
                  columns1 key1"
  using assms unfolding get_sheet_config_dict then_do_def
  by (simp split: sum.splits prod.splits)

lemma declared_columns_Nil:
  assumes "declared_columns (YDict d) delimiter1 columns0 key0 errs = (errs1, Inr ([], key1))"
  shows "columns0 = []"
proof (cases "map_of d SHEET_COLUMNS")
  case None
  then have "SHEET_COLUMNS \<notin> set (map fst d)" by (simp add: map_of_eq_None_iff)
  from assms show ?thesis
    unfolding declared_columns_absent [OF \<open>SHEET_COLUMNS \<notin> set (map fst d)\<close>] by simp
next
  case (Some v)
  from declared_columns_returns [OF assms Some] obtain items where v: "v = YDict items" ..
  from assms have "columns_loop items delimiter1 columns0 key0 errs = (errs1, Inr ([], key1))"
    unfolding declared_columns_dict [OF Some [unfolded v]] .
  from columns_loop_Nil [OF this] show ?thesis ..
qed

lemma make_sheet_fields:
  "header_offset (make_sheet spreadsheet h dl dc fo c k) = h"
  "default_columns (make_sheet spreadsheet h dl dc fo c k) = dc"
  "inherit_formulas (make_sheet spreadsheet h dl dc fo c k) = fo"
  by (simp_all add: make_sheet_def split: option.splits)

text \<open>
  Claim C7. A sheet specification (a mapping) without SHEET_COLUMNS, resolved with the
  spreadsheet defaults as parent, gets the parent's columns and the parent's key, whatever
  the specification says about DEFAULT_COLUMNS (the specification is arbitrary but for the
  absence of SHEET_COLUMNS). The call returns whenever HEADER_OFFSET is absent or converts
  to an integer, and whenever it returns the columns and key are the parent's.
\<close>

theorem sheet_without_columns_reuses_parent_columns:
  assumes "SHEET_COLUMNS \<notin> set (map fst d)"
    and "distinct (map fst (columns sp))"
  shows "((case map_of d HEADER_OFFSET of Some v \<Rightarrow> py_int v | None \<Rightarrow> Inr (header_offset sp))
            = Inr h \<longrightarrow>
          (\<exists>s. get_sheet_config (YDict d) (Some sp) errs = (errs, Inr s)
                \<and> columns s = columns sp \<and> key s = key sp))
       \<and> (get_sheet_config (YDict d) (Some sp) errs = (errs1, Inr s1) \<longrightarrow>
          columns s1 = columns sp \<and> key s1 = key sp)"
proof -
  have eq: "get_sheet_config (YDict d) (Some sp) errs =
     (case override_int (YDict d) HEADER_OFFSET (header_offset sp) of
        Inl e \<Rightarrow> (errs, Inl e)
      | Inr h \<Rightarrow> (errs, Inr (make_sheet (Some sp) h
           (case map_of d DELIMITER of Some v \<Rightarrow> v | None \<Rightarrow> delimiter sp)
           (case map_of d DEFAULT_COLUMNS of Some v \<Rightarrow> v | None \<Rightarrow> default_columns sp)
           (case map_of d INHERIT_FORMULAS of Some v \<Rightarrow> v | None \<Rightarrow> inherit_formulas sp)
           (columns sp) (key sp))))"
    by (simp add: get_sheet_config_dict declared_columns_absent [OF assms(1)]
        copy_columns_distinct [OF assms(2)] then_do_def split: sum.splits
        cong: option.case_cong)
  have cols: "\<And>h dl dc fo. columns (make_sheet (Some sp) h dl dc fo (columns sp) (key sp))
                = columns sp"
    by (simp add: make_sheet_def)
  have keys: "\<And>h dl dc fo. key (make_sheet (Some sp) h dl dc fo (columns sp) (key sp))
                = key sp"
    by (simp add: make_sheet_def)
  show ?thesis
  proof (intro conjI impI)
    assume "(case map_of d HEADER_OFFSET of Some v \<Rightarrow> py_int v | None \<Rightarrow> Inr (header_offset sp))
            = Inr h"
    then have "override_int (YDict d) HEADER_OFFSET (header_offset sp) = Inr h"
      by (simp add: override_int_dict)
    then show "\<exists>s. get_sheet_config (YDict d) (Some sp) errs = (errs, Inr s)
                \<and> columns s = columns sp \<and> key s = key sp"
      by (simp add: eq cols keys)
  next
    assume "get_sheet_config (YDict d) (Some sp) errs = (errs1, Inr s1)"
    then show "columns s1 = columns sp"
      unfolding eq by (auto simp: cols split: sum.splits)
  next
    assume "get_sheet_config (YDict d) (Some sp) errs = (errs1, Inr s1)"
    then show "key s1 = key sp"
      unfolding eq by (auto simp: keys split: sum.splits)
  qed
qed

text \<open>
  Claim C8, as amended. The claim says that each of the four settings, when set in the
  sheet specification, is carried by the resolved sheet, the delimiter also when the sheet
  declares no columns. Whenever resolution of a specification (a mapping) returns:
  DEFAULT_COLUMNS and INHERIT_FORMULAS are carried as set; HEADER_OFFSET is carried
  as \<open>int(value)\<close>; DELIMITER is carried as set, except when the sheet is resolved with a
  parent and ends with an empty column map (neither the parent nor the sheet has a column),
  where line 180 puts the parent's delimiter back.
\<close>

theorem explicit_sheet_settings_override:
  assumes "get_sheet_config (YDict d) spreadsheet errs = (errs1, Inr s)"
  shows "(map_of d HEADER_OFFSET = Some v \<longrightarrow> py_int v = Inr (header_offset s))
       \<and> (map_of d DEFAULT_COLUMNS = Some v \<longrightarrow> default_columns s = v)
       \<and> (map_of d INHERIT_FORMULAS = Some v \<longrightarrow> inherit_formulas s = v)
       \<and> (map_of d DELIMITER = Some v \<longrightarrow>
            delimiter s = (case spreadsheet of
                             None \<Rightarrow> v
                           | Some sp \<Rightarrow> if columns s = [] then delimiter sp else v))"
proof -
  from get_sheet_config_returns [OF assms] obtain h columns1 key1 where
    h: "override_int (YDict d) HEADER_OFFSET
             (case spreadsheet of Some sp \<Rightarrow> header_offset sp | None \<Rightarrow> DEFAULT_HEADER_OFFSET)
             = Inr h"
    and dc: "declared_columns (YDict d)
               (case map_of d DELIMITER of
                  Some v \<Rightarrow> v
                | None \<Rightarrow> (case spreadsheet of Some sp \<Rightarrow> delimiter sp
                             | None \<Rightarrow> DEFAULT_DELIMITER))
               (case spreadsheet of Some sp \<Rightarrow> copy_columns (columns sp) | None \<Rightarrow> [])
               (case spreadsheet of Some sp \<Rightarrow> key sp | None \<Rightarrow> None) errs
             = (errs1, Inr (columns1, key1))"
    and s: "s = make_sheet spreadsheet h
                  (case map_of d DELIMITER of
                     Some v \<Rightarrow> v
                   | None \<Rightarrow> (case spreadsheet of Some sp \<Rightarrow> delimiter sp
                                | None \<Rightarrow> DEFAULT_DELIMITER))
                  (case map_of d DEFAULT_COLUMNS of
                     Some v \<Rightarrow> v
                   | None \<Rightarrow> (case spreadsheet of Some sp \<Rightarrow> default_columns sp
                                | None \<Rightarrow> INIT_DEFAULT_COLUMNS))
                  (case map_of d INHERIT_FORMULAS of
                     Some v \<Rightarrow> v
                   | None \<Rightarrow> (case spreadsheet of Some sp \<Rightarrow> inherit_formulas sp
                                | None \<Rightarrow> INIT_INHERIT_FORMULAS))
                  columns1 key1"
    by blast
  show ?thesis
  proof (intro conjI impI)
    assume "map_of d HEADER_OFFSET = Some v"
    with h show "py_int v = Inr (header_offset s)"
      by (simp add: s make_sheet_fields override_int_dict)
  next
    assume "map_of d DEFAULT_COLUMNS = Some v"
    then show "default_columns s = v" by (simp add: s make_sheet_fields)
  next
    assume "map_of d INHERIT_FORMULAS = Some v"
    then show "inherit_formulas s = v" by (simp add: s make_sheet_fields)
  next
    assume dl: "map_of d DELIMITER = Some v"
    show "delimiter s = (case spreadsheet of
                             None \<Rightarrow> v
                           | Some sp \<Rightarrow> if columns s = [] then delimiter sp else v)"
    proof (cases spreadsheet)
      case None
      then show ?thesis by (simp add: s make_sheet_def dl)
    next
      case (Some sp)
      show ?thesis
      proof (cases "columns1 = []")
        case True
        with dc Some have "copy_columns (columns sp) = []"
          using declared_columns_Nil by fastforce
        then have "columns sp = []" by (rule copy_columns_Nil)
        with True Some show ?thesis by (simp add: s make_sheet_def)
      next
        case False
        with Some show ?thesis by (simp add: s make_sheet_def dl)
      qed
    qed
  qed
qed


text \<open>C7 at a sheet entry that sets DEFAULT_COLUMNS and declares no columns.\<close>

theorem sheet_without_columns_reuses_parent_columns_witness:
  "\<exists>s. get_sheet_config settings_only_sheet (Some bug_id_defaults) [] = ([], Inr s)
        \<and> columns s = [(''Bug ID'', bug_id_column)] \<and> key s = Some ''Bug ID''
        \<and> default_columns s = YBool True"
proof -
  let ?d = "[(NAME, YStr ''s1''), (QUERY, YStr ''q''), (HEADER_OFFSET, YInt 2),
      (DELIMITER, YStr '',''), (DEFAULT_COLUMNS, YBool True), (INHERIT_FORMULAS, YBool True)]"
  let ?s = "\<lparr> header_offset = 2, delimiter = YStr '','', default_columns = YBool True,
               inherit_formulas = YBool True, columns = [(''Bug ID'', bug_id_column)],
               key = Some ''Bug ID'' \<rparr>"
  have nsc: "SHEET_COLUMNS \<notin> set (map fst ?d)" by (simp add: field_defs)
  have dist: "distinct (map fst (columns bug_id_defaults))" by (simp add: bug_id_defaults_def)
  have ret: "get_sheet_config (YDict ?d) (Some bug_id_defaults) [] = ([], Inr ?s)"
    by (simp add: get_sheet_config_def declared_columns_def make_sheet_def override_def
        override_int_def copy_columns_def bug_id_defaults_def then_do_def pure_do_def
        field_defs Let_def)
  from sheet_without_columns_reuses_parent_columns
         [OF nsc dist, where h = 2 and errs = "[]" and ?errs1.0 = "[]" and ?s1.0 = "?s"] ret
  show ?thesis
    by (simp add: settings_only_sheet_def bug_id_defaults_def field_defs)
qed

text \<open>The amended C8 at a sheet entry that sets all four settings.\<close>

theorem explicit_sheet_settings_override_witness:
  "\<exists>s. get_sheet_config settings_only_sheet (Some bug_id_defaults) [] = ([], Inr s)
        \<and> header_offset s = 2 \<and> delimiter s = YStr '',''
        \<and> default_columns s = YBool True \<and> inherit_formulas s = YBool True"
proof -
  let ?d = "[(NAME, YStr ''s1''), (QUERY, YStr ''q''), (HEADER_OFFSET, YInt 2),
      (DELIMITER, YStr '',''), (DEFAULT_COLUMNS, YBool True), (INHERIT_FORMULAS, YBool True)]"
  let ?s = "\<lparr> header_offset = 2, delimiter = YStr '','', default_columns = YBool True,
               inherit_formulas = YBool True, columns = [(''Bug ID'', bug_id_column)],
               key = Some ''Bug ID'' \<rparr>"
  have ret: "get_sheet_config (YDict ?d) (Some bug_id_defaults) [] = ([], Inr ?s)"
    by (simp add: get_sheet_config_def declared_columns_def make_sheet_def override_def
        override_int_def copy_columns_def bug_id_defaults_def then_do_def pure_do_def
        field_defs Let_def)
  from explicit_sheet_settings_override [OF ret, where v = "YInt 2"]
       explicit_sheet_settings_override [OF ret, where v = "YStr '',''"]
       explicit_sheet_settings_override [OF ret, where v = "YBool True"]
  have "header_offset ?s = 2 \<and> delimiter ?s = YStr '',''
        \<and> default_columns ?s = YBool True \<and> inherit_formulas ?s = YBool True"
    by (simp add: field_defs)
  with ret show ?thesis
    by (simp add: settings_only_sheet_def)
qed

text \<open>
  C8 as stated fails: the sheet sets the delimiter \<open>","\<close> and declares no columns, the
  spreadsheet defaults have none either, and the resolved sheet has the parent's
  delimiter \<open>" "\<close>.
\<close>

theorem explicit_delimiter_lost_counterexample:
  "get_sheet_config settings_only_sheet (Some bare_defaults) []
     = ([], Inr \<lparr> header_offset = 2, delimiter = YStr '' '', default_columns = YBool True,
                   inherit_formulas = YBool True, columns = [], key = None \<rparr>)"
  by (simp add: settings_only_sheet_def bare_defaults_def get_sheet_config_def
      declared_columns_def make_sheet_def override_def override_int_def copy_columns_def
      then_do_def pure_do_def field_defs Let_def)

subsection \<open>Key columns\<close>

lemma get_column_config_key:
  assumes "get_column_config key0 column col c_data delimiter0 errs = (errs1, Inr (key1, col1))"
  shows "key1 = (if marks_key c_data then Some column else key0)
       \<and> errs1 = (if marks_key c_data \<and> truthy key0
                  then errs @ [CONFIG_FILE_MORE_KEYS] else errs)"
proof (cases c_data)
  case (YDict c)
  from assms [unfolded YDict get_column_config_def Let_def]
  have "key1 = (if KEY \<in> set (map fst c) then Some column else key0)
      \<and> errs1 = (if KEY \<in> set (map fst c) \<and> truthy key0
                 then log_error CONFIG_FILE_MORE_KEYS errs else errs)"
    by (simp split: sum.splits if_splits)
  then show ?thesis by (simp add: YDict marks_key_def log_error_def)
qed (use assms in \<open>simp_all add: get_column_config_def marks_key_def\<close>)

lemma columns_loop_Cons:
  assumes "columns_loop ((column, c_data) # items) delimiter0 cols key0 errs
             = (errs1, Inr (cols1, key1))"
  shows "\<exists>errs2 key2 col.
           get_column_config key0 column Column_init c_data delimiter0 errs
             = (errs2, Inr (key2, col))
         \<and> columns_loop items delimiter0 (AList.update column col cols) key2 errs2
             = (errs1, Inr (cols1, key1))"
  using assms
  by (simp add: then_do_def split: prod.splits sum.splits)

lemma columns_loop_key:
  assumes "columns_loop items delimiter0 cols key0 errs = (errs1, Inr (cols1, key1))"
  shows "key1 = (if key_columns items = [] then key0 else Some (last (key_columns items)))"
  using assms
proof (induction items arbitrary: cols key0 errs)
  case Nil
  then show ?case by (simp add: key_columns_def)
next
  case (Cons item items)
  obtain column c_data where item: "item = (column, c_data)" by (cases item)
  from columns_loop_Cons [OF Cons.prems [unfolded item]] obtain errs2 key2 col where
    step: "get_column_config key0 column Column_init c_data delimiter0 errs
             = (errs2, Inr (key2, col))"
    and rest: "columns_loop items delimiter0 (AList.update column col cols) key2 errs2
             = (errs1, Inr (cols1, key1))"
    by blast
  from Cons.IH [OF rest] get_column_config_key [OF step] show ?case
    by (simp add: item key_columns_def)
qed

lemma columns_loop_errors:
  assumes "columns_loop items delimiter0 cols key0 errs = (errs1, Inr (cols1, key1))"
    and "[] \<notin> set (key_columns items)"
  shows "errs1 = errs @ replicate (length (key_columns items) - (if truthy key0 then 0 else 1))
                           CONFIG_FILE_MORE_KEYS"
  using assms
proof (induction items arbitrary: cols key0 errs)
  case Nil
  then show ?case by (simp add: key_columns_def)
next
  case (Cons item items)
  obtain column c_data where item: "item = (column, c_data)" by (cases item)
  from columns_loop_Cons [OF Cons.prems(1) [unfolded item]] obtain errs2 key2 col where
    step: "get_column_config key0 column Column_init c_data delimiter0 errs
             = (errs2, Inr (key2, col))"
    and rest: "columns_loop items delimiter0 (AList.update column col cols) key2 errs2
             = (errs1, Inr (cols1, key1))"
    by blast
  from Cons.prems(2) have tl: "[] \<notin> set (key_columns items)"
    by (auto simp: item key_columns_def)
  note ih = Cons.IH [OF rest tl]
  show ?case
  proof (cases "marks_key c_data")
    case True
    with Cons.prems(2) have "column \<noteq> []" by (auto simp: item key_columns_def)
    with True get_column_config_key [OF step] have k2: "truthy key2"
      and e2: "errs2 = (if truthy key0 then errs @ [CONFIG_FILE_MORE_KEYS] else errs)"
      by (simp_all add: truthy_def)
    from True have kc: "key_columns (item # items) = column # key_columns items"
      by (simp add: item key_columns_def)
    show ?thesis
      unfolding ih kc using k2 e2
      by (simp add: replicate_append_same)
  next
    case False
    with get_column_config_key [OF step] have "key2 = key0" and "errs2 = errs" by simp_all
    moreover from False have "key_columns (item # items) = key_columns items"
      by (simp add: item key_columns_def)
    ultimately show ?thesis using ih by simp
  qed
qed


lemma make_sheet_columns_key:
  assumes "columns1 \<noteq> []"
  shows "columns (make_sheet spreadsheet h dl dc fo columns1 key1) = columns1"
    and "key (make_sheet spreadsheet h dl dc fo columns1 key1) = key1"
    and "delimiter (make_sheet spreadsheet h dl dc fo columns1 key1) = dl"
  using assms by (simp_all add: make_sheet_def split: option.splits)

text \<open>
  Claim C2, as amended. The claim says that a sheet with two or more key columns gets
  exactly one "more than one key" error and keeps the first of them as its key.
  \<open>get_column_config\<close> records the error whenever a key column comes while a key is set
  and then makes that column the key in any case. So whenever resolution of a sheet
  specification returns, with key columns declared (their names not empty): the key of the
  resolved sheet is the last key column in declaration order, and one error is recorded
  for every key column but the first, or for every key column when the parent already
  provides a key. With exactly two key columns and no key from the parent that is one
  error.
\<close>

theorem several_key_columns_last_one_wins:
  assumes "get_sheet_config (YDict d) spreadsheet errs = (errs1, Inr s)"
    and "map_of d SHEET_COLUMNS = Some (YDict items)"
    and "key_columns items \<noteq> []"
    and "[] \<notin> set (key_columns items)"
  shows "key s = Some (last (key_columns items))
       \<and> errs1 = errs @ replicate
             (length (key_columns items)
                - (if truthy (case spreadsheet of Some sp \<Rightarrow> key sp | None \<Rightarrow> None)
                   then 0 else 1))
             CONFIG_FILE_MORE_KEYS"
proof -
  from get_sheet_config_returns [OF assms(1)] obtain h columns1 key1 dl dc fo where
    loop: "declared_columns (YDict d) dl
             (case spreadsheet of Some sp \<Rightarrow> copy_columns (columns sp) | None \<Rightarrow> [])
             (case spreadsheet of Some sp \<Rightarrow> key sp | None \<Rightarrow> None) errs
             = (errs1, Inr (columns1, key1))"
    and s: "s = make_sheet spreadsheet h dl dc fo columns1 key1"
    by blast
  from loop have cl: "columns_loop items dl
             (case spreadsheet of Some sp \<Rightarrow> copy_columns (columns sp) | None \<Rightarrow> [])
             (case spreadsheet of Some sp \<Rightarrow> key sp | None \<Rightarrow> None) errs
             = (errs1, Inr (columns1, key1))"
    unfolding declared_columns_dict [OF assms(2)] .
  from assms(3) have "items \<noteq> []" by (auto simp: key_columns_def)
  with columns_loop_Nil cl have ne: "columns1 \<noteq> []" by blast
  from columns_loop_key [OF cl] assms(3) have "key1 = Some (last (key_columns items))"
    by simp
  with make_sheet_columns_key(2) [OF ne] have "key s = Some (last (key_columns items))"
    by (simp add: s)
  with columns_loop_errors [OF cl assms(4)] show ?thesis by simp
qed

text \<open>The amended C2 at a sheet with the two key columns A and B.\<close>

theorem several_key_columns_last_one_wins_witness:
  "\<exists>s. get_sheet_config
          (YDict [(SHEET_COLUMNS, YDict
             [(''A'', YDict [(KEY, YBool True), (SOURCE, YStr ''a'')]),
              (''B'', YDict [(KEY, YBool True), (SOURCE, YStr ''b'')])])]) None []
          = ([CONFIG_FILE_MORE_KEYS], Inr s)
        \<and> key s = Some ''B''"
proof -
  let ?items = "[(''A'', YDict [(KEY, YBool True), (SOURCE, YStr ''a'')]),
                 (''B'', YDict [(KEY, YBool True), (SOURCE, YStr ''b'')])]"
  let ?d = "[(SHEET_COLUMNS, YDict ?items)]"
  let ?col = "\<lambda>x. \<lparr> data = YStr x, gets = YNull, condition = YNull, optional = YNull,
                     link = YNull, col_delimiter = YStr '' '', delimiter2 = None \<rparr>"
  let ?s = "\<lparr> header_offset = 0, delimiter = YStr '' '', default_columns = YBool False,
               inherit_formulas = YBool False,
               columns = [(''A'', ?col ''a''), (''B'', ?col ''b'')], key = Some ''B'' \<rparr>"
  have ret: "get_sheet_config (YDict ?d) None [] = ([CONFIG_FILE_MORE_KEYS], Inr ?s)"
    by (simp add: get_sheet_config_def declared_columns_def make_sheet_def
        get_column_config_def get_source_config_def override_def override_int_def
        truthy_def log_error_def Column_init_def then_do_def pure_do_def field_defs
        default_defs Let_def)
  have sc: "map_of ?d SHEET_COLUMNS = Some (YDict ?items)" by simp
  have kc: "key_columns ?items = [''A'', ''B'']"
    by (simp add: key_columns_def marks_key_def field_defs)
  from several_key_columns_last_one_wins [OF ret sc] kc
  have "key ?s = Some ''B''" by simp
  with ret show ?thesis by blast
qed

text \<open>
  C2 as stated fails: three key columns A, B, C give two errors, and the key is C.
\<close>

theorem three_key_columns_counterexample:
  "get_sheet_config three_keys_sheet None []
     = ([CONFIG_FILE_MORE_KEYS, CONFIG_FILE_MORE_KEYS],
        Inr \<lparr> header_offset = 0, delimiter = YStr '' '', default_columns = YBool False,
              inherit_formulas = YBool False,
              columns =
                [(''A'', \<lparr> data = YStr ''a'', gets = YNull, condition = YNull,
                           optional = YNull, link = YNull, col_delimiter = YStr '' '',
                           delimiter2 = None \<rparr>),
                 (''B'', \<lparr> data = YStr ''b'', gets = YNull, condition = YNull,
                           optional = YNull, link = YNull, col_delimiter = YStr '' '',
                           delimiter2 = None \<rparr>),
                 (''C'', \<lparr> data = YStr ''c'', gets = YNull, condition = YNull,
                           optional = YNull, link = YNull, col_delimiter = YStr '' '',
                           delimiter2 = None \<rparr>)],
              key = Some ''C'' \<rparr>)"
  by (simp add: three_keys_sheet_def get_sheet_config_def declared_columns_def make_sheet_def
      get_column_config_def get_source_config_def override_def override_int_def
      truthy_def log_error_def Column_init_def then_do_def pure_do_def field_defs
      default_defs Let_def)

subsection \<open>Declared columns and the parent's columns\<close>

lemma columns_loop_other:
  assumes "columns_loop items delimiter0 cols key0 errs = (errs1, Inr (cols1, key1))"
    and "n \<notin> set (map fst items)"
  shows "map_of cols1 n = map_of cols n"
  using assms
proof (induction items arbitrary: cols key0 errs)
  case Nil
  then show ?case by simp
next
  case (Cons item items)
  obtain column c_data where item: "item = (column, c_data)" by (cases item)
  from columns_loop_Cons [OF Cons.prems(1) [unfolded item]] obtain errs2 key2 col where
    rest: "columns_loop items delimiter0 (AList.update column col cols) key2 errs2
             = (errs1, Inr (cols1, key1))"
    by blast
  from Cons.prems(2) have "n \<notin> set (map fst items)" and "n \<noteq> column"
    by (simp_all add: item)
  with Cons.IH [OF rest] show ?case by (simp add: update_conv')
qed

lemma columns_loop_names:
  assumes "columns_loop items delimiter0 cols key0 errs = (errs1, Inr (cols1, key1))"
  shows "set (map fst cols1) = set (map fst cols) \<union> set (map fst items)"
  using assms
proof (induction items arbitrary: cols key0 errs)
  case Nil
  then show ?case by simp
next
  case (Cons item items)
  obtain column c_data where item: "item = (column, c_data)" by (cases item)
  from columns_loop_Cons [OF Cons.prems(1) [unfolded item]] obtain errs2 key2 col where
    rest: "columns_loop items delimiter0 (AList.update column col cols) key2 errs2
             = (errs1, Inr (cols1, key1))"
    by blast
  have "set (map fst (AList.update column col cols)) = insert column (set (map fst cols))"
    using dom_update [of column col cols] by simp
  with Cons.IH [OF rest] show ?case by (simp add: item)
qed

lemma columns_loop_fresh:
  assumes "columns_loop items delimiter0 cols key0 errs = (errs1, Inr (cols1, key1))"
    and "distinct (map fst items)"
    and "(n, v) \<in> set items"
  shows "\<exists>k e e' k' c.
           get_column_config k n Column_init v delimiter0 e = (e', Inr (k', c))
           \<and> map_of cols1 n = Some c"
  using assms
proof (induction items arbitrary: cols key0 errs)
  case Nil
  then show ?case by simp
next
  case (Cons item items)
  obtain column c_data where item: "item = (column, c_data)" by (cases item)
  from columns_loop_Cons [OF Cons.prems(1) [unfolded item]] obtain errs2 key2 col where
    step: "get_column_config key0 column Column_init c_data delimiter0 errs
             = (errs2, Inr (key2, col))"
    and rest: "columns_loop items delimiter0 (AList.update column col cols) key2 errs2
             = (errs1, Inr (cols1, key1))"
    by blast
  from Cons.prems(2) have d: "distinct (map fst items)" and fresh: "column \<notin> set (map fst items)"
    by (simp_all add: item)
  show ?case
  proof (cases "(n, v) \<in> set items")
    case True
    from Cons.IH [OF rest d True] show ?thesis .
  next
    case False
    with Cons.prems(3) have nv: "n = column" "v = c_data" by (simp_all add: item)
    from columns_loop_other [OF rest fresh]
    have "map_of cols1 column = Some col" by (simp add: update_conv')
    with step show ?thesis unfolding nv by blast
  qed
qed

text \<open>
  Claim C3, as amended. The claim says that the columns and key resolved from a sheet's
  own column map replace the parent's entirely. \<open>get_sheet_config\<close> copies the parent's
  columns into the column map first and resolves the declared columns into that map, with
  the parent's key as the running key. So whenever resolution of a sheet specification
  that declares SHEET_COLUMNS returns, with a parent: every parent column whose name the
  sheet does not declare is in the resolved sheet unchanged; the names of the resolved
  columns are the parent's names and the declared names together; every declared column is
  there freshly resolved, with the sheet's delimiter; and the key is the last declared key
  column, or the parent's key when the sheet declares no key column.
\<close>

theorem declared_columns_merge_into_parent_columns:
  assumes "get_sheet_config (YDict d) (Some sp) errs = (errs1, Inr s)"
    and "map_of d SHEET_COLUMNS = Some (YDict items)"
    and "distinct (map fst (columns sp))"
    and "distinct (map fst items)"
  shows "(n \<notin> set (map fst items) \<longrightarrow> map_of (columns s) n = map_of (columns sp) n)
       \<and> set (map fst (columns s)) = set (map fst (columns sp)) \<union> set (map fst items)
       \<and> ((n, v) \<in> set items \<longrightarrow>
            (\<exists>k e e' k' c.
               get_column_config k n Column_init v (delimiter s) e = (e', Inr (k', c))
               \<and> map_of (columns s) n = Some c))
       \<and> key s = (if key_columns items = [] then key sp else Some (last (key_columns items)))"
proof -
  from get_sheet_config_returns [OF assms(1)] obtain h columns1 key1 dl dc fo where
    loop: "declared_columns (YDict d) dl (copy_columns (columns sp)) (key sp) errs
             = (errs1, Inr (columns1, key1))"
    and s: "s = make_sheet (Some sp) h dl dc fo columns1 key1"
    by auto
  from loop have cl: "columns_loop items dl (columns sp) (key sp) errs
             = (errs1, Inr (columns1, key1))"
    unfolding declared_columns_dict [OF assms(2)] copy_columns_distinct [OF assms(3)] .
  show ?thesis
  proof (cases "columns1 = []")
    case True
    from cl [unfolded True] columns_loop_Nil have e: "columns sp = []" "items = []"
      by blast+
    from True have "columns s = columns sp" "key s = key sp"
      by (simp_all add: s make_sheet_def)
    with e show ?thesis by (simp add: key_columns_def)
  next
    case False
    from make_sheet_columns_key [OF False]
    have f: "columns s = columns1" "key s = key1" "delimiter s = dl"
      by (simp_all add: s)
    have 1: "n \<notin> set (map fst items) \<longrightarrow> map_of (columns s) n = map_of (columns sp) n"
      using columns_loop_other [OF cl] by (simp add: f)
    have 2: "set (map fst (columns s)) = set (map fst (columns sp)) \<union> set (map fst items)"
      using columns_loop_names [OF cl] by (simp add: f)
    have 3: "(n, v) \<in> set items \<longrightarrow>
            (\<exists>k e e' k' c.
               get_column_config k n Column_init v (delimiter s) e = (e', Inr (k', c))
               \<and> map_of (columns s) n = Some c)"
      using columns_loop_fresh [OF cl assms(4)] unfolding f by blast
    have 4: "key s = (if key_columns items = [] then key sp
                      else Some (last (key_columns items)))"
      using columns_loop_key [OF cl] by (simp add: f)
    from 1 2 3 4 show ?thesis by blast
  qed
qed

text \<open>
  C3 as stated fails: the sheet declares only the column Status, and the resolved sheet
  still has the parent's column Bug ID and the parent's key.
\<close>

theorem parent_column_survives_counterexample:
  "get_sheet_config own_column_sheet (Some bug_id_defaults) []
     = ([], Inr \<lparr> header_offset = 1, delimiter = YStr '';'', default_columns = YBool False,
                   inherit_formulas = YBool False,
                   columns =
                     [(''Bug ID'', bug_id_column),
                      (''Status'', \<lparr> data = YStr ''status'', gets = YNull,
                                      condition = YNull, optional = YNull, link = YNull,
                                      col_delimiter = YStr '' '', delimiter2 = None \<rparr>)],
                   key = Some ''Bug ID'' \<rparr>)"
  by (simp add: own_column_sheet_def bug_id_defaults_def get_sheet_config_def
      declared_columns_def make_sheet_def get_column_config_def override_def
      override_int_def copy_columns_def Column_init_def then_do_def pure_do_def field_defs
      default_defs Let_def)


text \<open>
  The amended C3 at a sheet that declares the column Status, resolved with defaults that
  have the key column Bug ID.
\<close>

theorem declared_columns_merge_into_parent_columns_witness:
  "\<exists>s. get_sheet_config own_column_sheet (Some bug_id_defaults) [] = ([], Inr s)
        \<and> map_of (columns s) ''Bug ID'' = Some bug_id_column
        \<and> set (map fst (columns s)) = {''Bug ID'', ''Status''}
        \<and> key s = Some ''Bug ID''
        \<and> map_of (columns s) ''Status'' \<noteq> None"
proof -
  let ?items = "[(''Status'', YStr ''status'')]"
  let ?d = "[(NAME, YStr ''s1''), (QUERY, YStr ''q''), (SHEET_COLUMNS, YDict ?items)]"
  let ?s = "\<lparr> header_offset = 1, delimiter = YStr '';'', default_columns = YBool False,
               inherit_formulas = YBool False,
               columns =
                 [(''Bug ID'', bug_id_column),
                  (''Status'', \<lparr> data = YStr ''status'', gets = YNull,
                                  condition = YNull, optional = YNull, link = YNull,
                                  col_delimiter = YStr '' '', delimiter2 = None \<rparr>)],
               key = Some ''Bug ID'' \<rparr>"
  have ret: "get_sheet_config (YDict ?d) (Some bug_id_defaults) [] = ([], Inr ?s)"
    by (simp add: bug_id_defaults_def get_sheet_config_def
        declared_columns_def make_sheet_def get_column_config_def override_def
        override_int_def copy_columns_def Column_init_def then_do_def pure_do_def field_defs
        default_defs Let_def)
  have sc: "map_of ?d SHEET_COLUMNS = Some (YDict ?items)" by (simp add: field_defs)
  have d1: "distinct (map fst (columns bug_id_defaults))" by (simp add: bug_id_defaults_def)
  have d2: "distinct (map fst ?items)" by simp
  have kc: "key_columns ?items = []" by (simp add: key_columns_def marks_key_def)
  from declared_columns_merge_into_parent_columns
         [OF ret sc d1 d2, where n = "''Bug ID''" and v = "YStr ''status''"] kc
  have "map_of (columns ?s) ''Bug ID'' = Some bug_id_column
        \<and> set (map fst (columns ?s)) = {''Bug ID'', ''Status''}
        \<and> key ?s = Some ''Bug ID''"
    by (simp add: bug_id_defaults_def)
  moreover
  have "(''Status'', YStr ''status'') \<in> set ?items" by simp
  with declared_columns_merge_into_parent_columns
         [OF ret sc d1 d2, where n = "''Status''" and v = "YStr ''status''"]
  have "\<exists>c. map_of (columns ?s) ''Status'' = Some c" by blast
  then have "map_of (columns ?s) ''Status'' \<noteq> None" by simp
  ultimately show ?thesis
    unfolding own_column_sheet_def using ret by blast
qed

end
